theory Spec2Isabelle
  imports Complex_Main
begin

section \<open>The hosted database as the client sees it\<close>

text \<open>
  The TypeScript modules talk to a managed Postgres instance through the supabase client.
  A request never raises: the client resolves to a pair \<open>{ data, error }\<close>, with
  \<open>data\<close> null when \<open>error\<close> is set. The model keeps the tables the functions
  below read and write, the signed-in user, and, for every request the code issues,
  the error the service answers with (if any). The tables hold the rows that row-level
  security lets the session see.

  Timestamps (\<open>TIMESTAMP WITH TIME ZONE\<close> columns, \<open>Date.now()\<close>) are
  milliseconds since the epoch.
\<close>

type_synonym timestamp = int

datatype crop_status = Healthy | Attention | Critical

text \<open>\<open>interface CropCycle\<close> of lib/crop-db.ts.\<close>

record CropCycle =
  crop_id :: int
  crop_name :: string
  sowing_date :: string
  expected_harvest_date :: "string option"
  current_stage :: string
  predicted_yield :: "real option"
  is_active :: bool
  user_id :: string

text \<open>
  A row of \<open>crop_cycles\<close>: the columns of \<open>CropCycle\<close>, the two columns added by
  the migration that adds the manual status columns, and \<open>updated_at\<close>, the column
  that the trigger \<open>update_crop_cycles_updated_at\<close> of supabase-setup.sql maintains.
  \<open>manual_status\<close> carries the CHECK constraint
  \<open>IN ('healthy', 'attention', 'critical')\<close> and is nullable.
\<close>

record crop_cycles_row = CropCycle +
  manual_status :: "crop_status option"
  manual_status_updated_at :: "timestamp option"
  updated_at :: "timestamp option"

text \<open>
  A row of \<open>disease_logs\<close> (as created by the table's SQL script). \<open>severity\<close> is a nullable
  TEXT column; the code compares it with string literals.
\<close>

record disease_logs_row =
  log_user_id :: string
  crop_cycle_id :: "int option"
  detection_date :: timestamp
  disease_name :: string
  severity :: "string option"

text \<open>
  A row of \<open>users\<close>: the key and the location columns that lib/location-sync.ts
  writes (\<open>latitude\<close>, \<open>longitude\<close>, \<open>location_accuracy\<close>, \<open>city\<close>,
  \<open>state\<close>, \<open>country\<close>, \<open>location_updated_at\<close>), all nullable.
\<close>

record users_row =
  users_id :: string
  col_latitude :: "real option"
  col_longitude :: "real option"
  col_location_accuracy :: "real option"
  col_city :: "string option"
  col_state :: "string option"
  col_country :: "string option"
  col_location_updated_at :: "timestamp option"

text \<open>The requests issued by the modules below, by the place that issues them.\<close>

datatype request =
    SelectManualStatus
  | SelectDiseaseLogs
  | SelectActiveCrops
  | UpdateIsActive
  | UpdateManualStatus
  | UpdateUsersLocation

record backend =
  auth_user :: "string option"
  users :: "users_row list"
  crop_cycles :: "crop_cycles_row list"
  disease_logs :: "disease_logs_row list"
  request_error :: "request \<Rightarrow> string option"

record 'a response =
  data :: "'a option"
  error :: "string option"

definition failed :: "string \<Rightarrow> 'a response" where
  "failed e = \<lparr>data = None, error = Some e\<rparr>"

definition succeeded :: "'a \<Rightarrow> 'a response" where
  "succeeded x = \<lparr>data = Some x, error = None\<rparr>"

text \<open>\<open>getCurrentUser\<close> of lib/auth-helpers.ts: the id of the signed-in user, or null.\<close>

definition getCurrentUser :: "backend \<Rightarrow> string option" where
  "getCurrentUser db = auth_user db"

section \<open>lib/crop-db.ts\<close>

subsection \<open>The two queries of getCropStatus\<close>

text \<open>
  \<open>.from('crop_cycles').select('manual_status, manual_status_updated_at')
  .eq('crop_id', crop.crop_id).single()\<close>: \<open>single\<close> answers with an error unless
  exactly one row matches.
\<close>

definition select_manual_status ::
  "backend \<Rightarrow> int \<Rightarrow> (crop_status option \<times> timestamp option) response" where
  "select_manual_status db cid =
     (case request_error db SelectManualStatus of
        Some e \<Rightarrow> failed e
      | None \<Rightarrow>
          (case filter (\<lambda>r. crop_id r = cid) (crop_cycles db) of
             [r] \<Rightarrow> succeeded (manual_status r, manual_status_updated_at r)
           | _ \<Rightarrow> failed ''JSON object requested, multiple (or no) rows returned''))"

text \<open>
  \<open>.from('disease_logs').select('severity, detection_date, disease_name')
  .eq('crop_cycle_id', crop.crop_id).gte('detection_date', since)
  .order('detection_date', { ascending: false })\<close>. The sort is stable; Postgres
  leaves the order of rows with equal dates open.
\<close>

definition select_disease_logs ::
  "backend \<Rightarrow> int \<Rightarrow> timestamp \<Rightarrow> disease_logs_row list response" where
  "select_disease_logs db cid since =
     (case request_error db SelectDiseaseLogs of
        Some e \<Rightarrow> failed e
      | None \<Rightarrow>
          succeeded
            (sort_key (\<lambda>d. - detection_date d)
               (filter (\<lambda>d. crop_cycle_id d = Some cid \<and> since \<le> detection_date d)
                  (disease_logs db))))"

text \<open>
  \<open>const d = new Date(); d.setDate(d.getDate() - n)\<close> moves the date back by \<open>n\<close>
  days of the local calendar and keeps the local time of day, so the result depends on
  the time zone of the runtime: across a change of the UTC offset it is not
  \<open>n\<close> times 24 hours before \<open>now\<close>. A time zone is modelled by this very
  operation: \<open>tz now n\<close> is the instant that \<open>d\<close> denotes afterwards.
\<close>

type_synonym timezone = "timestamp \<Rightarrow> int \<Rightarrow> timestamp"

definition daysAgo :: "timezone \<Rightarrow> timestamp \<Rightarrow> int \<Rightarrow> timestamp" where
  "daysAgo tz now n = tz now n"

subsection \<open>getCropStatus\<close>

text \<open>
  Lines 440-459: the manual status is used when both columns are set and the update is
  younger than seven days. A failed query leaves \<open>manualStatus\<close> null.
\<close>

definition manualOverride ::
  "timezone \<Rightarrow> timestamp \<Rightarrow> (crop_status option \<times> timestamp option) response
     \<Rightarrow> crop_status option" where
  "manualOverride tz now r =
     (case data r of
        Some (Some s, Some statusDate) \<Rightarrow>
          (if statusDate > daysAgo tz now 7 then Some s else None)
      | _ \<Rightarrow> None)"

text \<open>Lines 478-516: the classification of the fetched rows.\<close>

definition classifyDiseaseLogs :: "disease_logs_row list option \<Rightarrow> crop_status" where
  "classifyDiseaseLogs diseaseLogs =
     (case diseaseLogs of
        None \<Rightarrow> Healthy
      | Some logs \<Rightarrow>
          if length logs = 0 then Healthy
          else
            let severeDiseases = length (filter (\<lambda>d. severity d = Some ''severe'') logs);
                moderateDiseases = length (filter (\<lambda>d. severity d = Some ''moderate'') logs);
                mildDiseases = length (filter (\<lambda>d. severity d = Some ''mild'') logs);
                totalDiseases = length logs
            in if totalDiseases \<ge> 2 then Critical
               else if severeDiseases > 0 then Critical
               else if moderateDiseases > 0 \<or> mildDiseases > 0 then Attention
               else Healthy)"

text \<open>
  The function returns the status together with the requests it issued, in order: the
  disease-log query is only issued when no manual status is in force. The \<open>catch\<close>
  clause (lines 517-520) also returns \<open>healthy\<close>; no request raises, so no path of
  the model enters it.
\<close>

definition getCropStatus_run ::
  "backend \<Rightarrow> timezone \<Rightarrow> timestamp \<Rightarrow> CropCycle \<Rightarrow> crop_status \<times> request list" where
  "getCropStatus_run db tz now crop =
     (let manualStatus = select_manual_status db (crop_id crop) in
      case manualOverride tz now manualStatus of
        Some s \<Rightarrow> (s, [SelectManualStatus])
      | None \<Rightarrow>
          let thirtyDaysAgo = daysAgo tz now 30;
              r = select_disease_logs db (crop_id crop) thirtyDaysAgo
          in if error r \<noteq> None then (Healthy, [SelectManualStatus, SelectDiseaseLogs])
             else (classifyDiseaseLogs (data r), [SelectManualStatus, SelectDiseaseLogs]))"

definition getCropStatus ::
  "backend \<Rightarrow> timezone \<Rightarrow> timestamp \<Rightarrow> CropCycle \<Rightarrow> crop_status" where
  "getCropStatus db tz now crop = fst (getCropStatus_run db tz now crop)"

definition getCropStatus_requests ::
  "backend \<Rightarrow> timezone \<Rightarrow> timestamp \<Rightarrow> CropCycle \<Rightarrow> request list" where
  "getCropStatus_requests db tz now crop = snd (getCropStatus_run db tz now crop)"

subsection \<open>getActiveCrops, markCropAsHarvested, updateCropStatus\<close>

text \<open>
  \<open>.from('crop_cycles').select('*').eq('user_id', user.id).eq('is_active', true)
  .order('crop_id', { ascending: false })\<close>. Without a signed-in user the function
  throws inside its own \<open>try\<close> and returns the empty list, as it does on an error.
\<close>

definition getActiveCrops :: "backend \<Rightarrow> crop_cycles_row list" where
  "getActiveCrops db =
     (case getCurrentUser db of
        None \<Rightarrow> []
      | Some user \<Rightarrow>
          (case request_error db SelectActiveCrops of
             Some e \<Rightarrow> []
           | None \<Rightarrow>
               sort_key (\<lambda>r. - crop_id r)
                 (filter (\<lambda>r. user_id r = user \<and> is_active r = True) (crop_cycles db))))"

text \<open>
  Every UPDATE of \<open>crop_cycles\<close> runs the row trigger of supabase-setup.sql, lines
  128-142: \<open>BEFORE UPDATE ... FOR EACH ROW\<close>, \<open>NEW.updated_at = NOW()\<close>. An update
  that assigns columns by \<open>assign\<close> therefore stores, in each row it matches, the
  row changed by \<open>assign\<close> and stamped with the time of the statement.
\<close>

definition update_crop_cycles ::
  "timestamp \<Rightarrow> (crop_cycles_row \<Rightarrow> bool) \<Rightarrow> (crop_cycles_row \<Rightarrow> crop_cycles_row)
     \<Rightarrow> crop_cycles_row list \<Rightarrow> crop_cycles_row list" where
  "update_crop_cycles now matches assign rows =
     map (\<lambda>r. if matches r then (assign r)\<lparr>updated_at := Some now\<rparr> else r) rows"

text \<open>
  \<open>.from('crop_cycles').update({ is_active: false }).eq('crop_id', cropId)
  .eq('user_id', user.id)\<close>, issued at \<open>now\<close>. The result is the returned boolean and
  the database after the call; a request answered with an error changes nothing.
\<close>

definition markCropAsHarvested :: "backend \<Rightarrow> timestamp \<Rightarrow> int \<Rightarrow> bool \<times> backend" where
  "markCropAsHarvested db now cropId =
     (case getCurrentUser db of
        None \<Rightarrow> (False, db)
      | Some user \<Rightarrow>
          (case request_error db UpdateIsActive of
             Some e \<Rightarrow> (False, db)
           | None \<Rightarrow>
               (True,
                db\<lparr>crop_cycles :=
                     update_crop_cycles now
                       (\<lambda>r. crop_id r = cropId \<and> user_id r = user)
                       (\<lambda>r. r\<lparr>is_active := False\<rparr>)
                       (crop_cycles db)\<rparr>)))"

text \<open>
  \<open>.update({ manual_status: status, manual_status_updated_at: new Date().toISOString() })
  .eq('crop_id', cropId).eq('user_id', user.id)\<close>.
\<close>

definition updateCropStatus ::
  "backend \<Rightarrow> timestamp \<Rightarrow> int \<Rightarrow> crop_status \<Rightarrow> bool \<times> backend" where
  "updateCropStatus db now cropId status =
     (case getCurrentUser db of
        None \<Rightarrow> (False, db)
      | Some user \<Rightarrow>
          (case request_error db UpdateManualStatus of
             Some e \<Rightarrow> (False, db)
           | None \<Rightarrow>
               (True,
                db\<lparr>crop_cycles :=
                     update_crop_cycles now
                       (\<lambda>r. crop_id r = cropId \<and> user_id r = user)
                       (\<lambda>r. r\<lparr>manual_status := Some status,
                               manual_status_updated_at := Some now\<rparr>)
                       (crop_cycles db)\<rparr>)))"

section \<open>services/smartAlertService.ts\<close>

subsection \<open>Data\<close>

text \<open>
  JavaScript numbers are modelled as reals: the code only compares them with constants.
  \<open>interface ForecastDay\<close> of services/weatherService.ts, with the fields of \<open>day\<close>
  that the alert service reads.
\<close>

record DayData =
  maxtemp_c :: real
  mintemp_c :: real
  avgtemp_c :: real
  maxwind_kph :: real
  totalprecip_mm :: real
  avghumidity :: real
  daily_chance_of_rain :: real
  condition_text :: string
  uv :: real

record ForecastDay =
  date :: string
  date_epoch :: int
  day :: DayData

record DetailedWeatherForecast =
  forecastday :: "ForecastDay list"

text \<open>
  The soil record is typed \<open>any\<close> in the alert service; these are the properties it
  reads, each possibly missing.
\<close>

record SoilRecord =
  sand_pct :: "real option"
  total_nitrogen :: "real option"
  organic_carbon :: "real option"
  ph_h2o :: "real option"

datatype alert_type = Weather | Irrigation | Fertilizer | Pest | Harvest | Disease | Soil

datatype priority = critical | high | medium | low

text \<open>
  \<open>interface SmartAlert\<close>. The display texts (\<open>title\<close>, \<open>description\<close>,
  \<open>actionRequired\<close>) are left out: they are formatted from the same inputs and decide
  nothing below.
\<close>

record SmartAlert =
  alert_id :: string
  alert_type :: alert_type
  priority :: priority
  affectedCrops :: "string list"
  alert_date :: string
  forecastDay :: "ForecastDay option"

text \<open>
  What the alert service takes from the JavaScript runtime: the current instant, today's
  date as \<open>new Date().toISOString().split('T')[0]\<close> prints it, and the \<open>Date\<close>
  constructor on a string (\<open>None\<close> for an invalid date).
\<close>

record runtime =
  currentTime :: timestamp
  todayISO :: string
  parseDate :: "string \<Rightarrow> timestamp option"

text \<open>\<open>x || 0\<close> on a number that may be missing.\<close>

definition orZero :: "real option \<Rightarrow> real" where
  "orZero x = (case x of None \<Rightarrow> 0 | Some v \<Rightarrow> v)"

text \<open>A non-negative integer in a template string: its decimal digits.\<close>

fun decimal :: "nat \<Rightarrow> string" where
  "decimal n =
     (if n < 10 then [char_of (48 + n)]
      else decimal (n div 10) @ [char_of (48 + n mod 10)])"

definition numberToString :: "int \<Rightarrow> string" where
  "numberToString k = (if k < 0 then CHR ''-'' # decimal (nat (- k)) else decimal (nat k))"

subsection \<open>The alerts of one forecast day\<close>

definition generateRainAlert :: "ForecastDay \<Rightarrow> CropCycle list \<Rightarrow> SmartAlert" where
  "generateRainAlert d crops =
     \<lparr>alert_id = ''rain-'' @ date d, alert_type = Weather,
      priority = (if totalprecip_mm (day d) > 20 then high else medium),
      affectedCrops = map crop_name crops, alert_date = date d, forecastDay = Some d\<rparr>"

definition generateHeavyRainAlert :: "ForecastDay \<Rightarrow> CropCycle list \<Rightarrow> SmartAlert" where
  "generateHeavyRainAlert d crops =
     \<lparr>alert_id = ''heavy-rain-'' @ date d, alert_type = Weather, priority = critical,
      affectedCrops = map crop_name crops, alert_date = date d, forecastDay = Some d\<rparr>"

definition generateHeatAlert :: "ForecastDay \<Rightarrow> CropCycle list \<Rightarrow> SmartAlert" where
  "generateHeatAlert d crops =
     \<lparr>alert_id = ''heat-'' @ date d, alert_type = Weather,
      priority = (if maxtemp_c (day d) > 40 then critical else high),
      affectedCrops = map crop_name crops, alert_date = date d, forecastDay = Some d\<rparr>"

definition generateColdAlert :: "ForecastDay \<Rightarrow> CropCycle list \<Rightarrow> SmartAlert" where
  "generateColdAlert d crops =
     \<lparr>alert_id = ''cold-'' @ date d, alert_type = Weather,
      priority = (if mintemp_c (day d) < 5 then critical else high),
      affectedCrops = map crop_name crops, alert_date = date d, forecastDay = Some d\<rparr>"

definition generateWindAlert :: "ForecastDay \<Rightarrow> CropCycle list \<Rightarrow> SmartAlert" where
  "generateWindAlert d crops =
     \<lparr>alert_id = ''wind-'' @ date d, alert_type = Weather,
      priority = (if maxwind_kph (day d) > 60 then critical else high),
      affectedCrops = map crop_name crops, alert_date = date d, forecastDay = Some d\<rparr>"

definition generateDiseaseRiskAlert ::
  "ForecastDay \<Rightarrow> CropCycle list \<Rightarrow> disease_logs_row list \<Rightarrow> SmartAlert" where
  "generateDiseaseRiskAlert d crops diseases =
     \<lparr>alert_id = ''disease-risk-'' @ date d, alert_type = Disease, priority = high,
      affectedCrops = map crop_name crops, alert_date = date d, forecastDay = Some d\<rparr>"

definition generateUVAlert :: "ForecastDay \<Rightarrow> SmartAlert" where
  "generateUVAlert d =
     \<lparr>alert_id = ''uv-'' @ date d, alert_type = Weather, priority = low,
      affectedCrops = [], alert_date = date d, forecastDay = Some d\<rparr>"

text \<open>
  Lines 83-115: what iteration \<open>i\<close> of the loop pushes for its day, in the order of the
  pushes. The regular rain check is the \<open>else\<close> branch of the heavy rain check.
\<close>

definition dayAlerts ::
  "nat \<Rightarrow> ForecastDay \<Rightarrow> CropCycle list \<Rightarrow> disease_logs_row list \<Rightarrow> SmartAlert list" where
  "dayAlerts i d crops recentDiseases =
     (if totalprecip_mm (day d) > 50 then [generateHeavyRainAlert d crops]
      else if daily_chance_of_rain (day d) > 70 \<and> totalprecip_mm (day d) > 5
           then [generateRainAlert d crops]
      else [])
     @ (if maxtemp_c (day d) > 35 then [generateHeatAlert d crops] else [])
     @ (if mintemp_c (day d) < 10 then [generateColdAlert d crops] else [])
     @ (if maxwind_kph (day d) > 40 then [generateWindAlert d crops] else [])
     @ (if i = 0 \<and> avghumidity (day d) > 80 \<and> length recentDiseases > 0
        then [generateDiseaseRiskAlert d crops recentDiseases] else [])
     @ (if i < 2 \<and> uv (day d) > 8 then [generateUVAlert d] else [])"

record loop_state =
  alerts :: "SmartAlert list"
  hasRainInForecast :: bool
  daysWithoutRain :: nat

definition loopBody ::
  "nat \<Rightarrow> ForecastDay \<Rightarrow> CropCycle list \<Rightarrow> disease_logs_row list \<Rightarrow> loop_state \<Rightarrow> loop_state" where
  "loopBody i d crops recentDiseases st =
     (let st' = (if daily_chance_of_rain (day d) > 30 \<or> totalprecip_mm (day d) > 1
                 then st\<lparr>hasRainInForecast := True\<rparr>
                 else st\<lparr>daysWithoutRain := daysWithoutRain st + 1\<rparr>)
      in st'\<lparr>alerts := alerts st' @ dayAlerts i d crops recentDiseases\<rparr>)"

text \<open>\<open>for (let i = 0; i < forecastday.length; i++)\<close>, from index \<open>i\<close> on.\<close>

fun forecastLoop ::
  "nat \<Rightarrow> ForecastDay list \<Rightarrow> CropCycle list \<Rightarrow> disease_logs_row list \<Rightarrow> loop_state \<Rightarrow> loop_state" where
  "forecastLoop i [] crops recentDiseases st = st"
| "forecastLoop i (d # ds) crops recentDiseases st =
     forecastLoop (i + 1) ds crops recentDiseases (loopBody i d crops recentDiseases st)"

subsection \<open>The alerts after the loop\<close>

definition generateIrrigationAlert ::
  "ForecastDay \<Rightarrow> CropCycle list \<Rightarrow> SoilRecord option \<Rightarrow> SmartAlert" where
  "generateIrrigationAlert d crops soilData =
     \<lparr>alert_id = ''irrigation-needed'', alert_type = Irrigation, priority = medium,
      affectedCrops = map crop_name crops, alert_date = date d, forecastDay = Some d\<rparr>"

definition generateFertilizerAlert ::
  "runtime \<Rightarrow> SoilRecord \<Rightarrow> CropCycle list \<Rightarrow> SmartAlert option" where
  "generateFertilizerAlert rt soilData crops =
     (let nitrogen = orZero (total_nitrogen soilData);
          organicCarbon = orZero (organic_carbon soilData)
      in if nitrogen < 0.1 \<or> organicCarbon < 5
         then Some \<lparr>alert_id = ''fertilizer-alert'', alert_type = Fertilizer, priority = high,
                    affectedCrops = map crop_name crops, alert_date = todayISO rt,
                    forecastDay = None\<rparr>
         else None)"

text \<open>
  \<open>Math.ceil((harvestDate.getTime() - today.getTime()) / (1000 * 60 * 60 * 24))\<close> on
  integers; an invalid date makes both comparisons false.
\<close>

definition daysUntil :: "timestamp \<Rightarrow> timestamp \<Rightarrow> int" where
  "daysUntil harvestDate today = - ((today - harvestDate) div 86400000)"

definition harvestAlertOf :: "runtime \<Rightarrow> CropCycle \<Rightarrow> SmartAlert list" where
  "harvestAlertOf rt crop =
     (case expected_harvest_date crop of
        None \<Rightarrow> []
      | Some s \<Rightarrow>
          if s = [] then []
          else (case parseDate rt s of
                  None \<Rightarrow> []
                | Some harvestDate \<Rightarrow>
                    let daysUntilHarvest = daysUntil harvestDate (currentTime rt)
                    in if daysUntilHarvest > 0 \<and> daysUntilHarvest \<le> 14
                       then [\<lparr>alert_id = ''harvest-'' @ numberToString (crop_id crop),
                              alert_type = Harvest,
                              priority = (if daysUntilHarvest \<le> 7 then high else medium),
                              affectedCrops = [crop_name crop], alert_date = s,
                              forecastDay = None\<rparr>]
                       else []))"

fun generateHarvestAlerts :: "runtime \<Rightarrow> CropCycle list \<Rightarrow> SmartAlert list" where
  "generateHarvestAlerts rt [] = []"
| "generateHarvestAlerts rt (crop # crops) = harvestAlertOf rt crop @ generateHarvestAlerts rt crops"

subsection \<open>Filler alerts\<close>

text \<open>
  The function reads \<open>forecastday[0].day\<close> and \<open>forecastday[1].day\<close> as soon as one
  filler is needed; on a forecast of fewer than two days that is a TypeError, here \<open>None\<close>.
\<close>

definition filler :: "string \<Rightarrow> alert_type \<Rightarrow> CropCycle list \<Rightarrow> string
                        \<Rightarrow> ForecastDay option \<Rightarrow> SmartAlert" where
  "filler name ty crops d fd =
     \<lparr>alert_id = name, alert_type = ty, priority = low,
      affectedCrops = map crop_name crops, alert_date = d, forecastDay = fd\<rparr>"

definition generateFillerAlerts ::
  "runtime \<Rightarrow> DetailedWeatherForecast \<Rightarrow> CropCycle list \<Rightarrow> SoilRecord option \<Rightarrow> nat
     \<Rightarrow> SmartAlert list option" where
  "generateFillerAlerts rt forecast crops soilData currentCount =
     (let needed = nat (max 0 (4 - int currentCount)) in
      if needed = 0 then Some []
      else
        (case forecastday forecast of
           today # tomorrow # rest \<Rightarrow>
             let f1 = [filler ''weather-summary'' Weather crops (date today) (Some today)];
                 f2 = f1 @ (if length f1 < needed \<and> soilData \<noteq> None
                            then [filler ''soil-monitoring'' Soil crops (todayISO rt) None]
                            else []);
                 f3 = f2 @ (if length f2 < needed \<and> length crops > 0
                            then [filler ''crop-monitoring'' Pest crops (todayISO rt) None]
                            else []);
                 f4 = f3 @ (if length f3 < needed
                            then [filler ''optimal-conditions'' Weather crops (date today) (Some today)]
                            else []);
                 f5 = f4 @ (if length f4 < needed
                            then [filler ''weekly-planning'' Irrigation crops (date today) None]
                            else [])
             in Some (take needed f5)
         | _ \<Rightarrow> None))"

subsection \<open>generateSmartAlerts\<close>

fun priorityOrder :: "priority \<Rightarrow> nat" where
  "priorityOrder critical = 0"
| "priorityOrder high = 1"
| "priorityOrder medium = 2"
| "priorityOrder low = 3"

text \<open>
  Lines 144-152: \<open>alerts.sort((a, b) => priorityOrder[a.priority] - priorityOrder[b.priority])\<close>,
  a stable sort by rank, then \<open>slice(0, 6)\<close>.
\<close>

definition sortAndLimit :: "SmartAlert list \<Rightarrow> SmartAlert list" where
  "sortAndLimit xs = take 6 (sort_key (\<lambda>a. priorityOrder (priority a)) xs)"

text \<open>
  Lines 118-136: the alerts collected before the fillers.
\<close>

definition collectedAlerts ::
  "runtime \<Rightarrow> DetailedWeatherForecast \<Rightarrow> CropCycle list \<Rightarrow> SoilRecord option
     \<Rightarrow> disease_logs_row list \<Rightarrow> SmartAlert list" where
  "collectedAlerts rt forecast crops soilData recentDiseases =
     (let st = forecastLoop 0 (forecastday forecast) crops recentDiseases
                 \<lparr>alerts = [], hasRainInForecast = False, daysWithoutRain = 0\<rparr>;
          a1 = alerts st @
               (if daysWithoutRain st \<ge> 3
                then (case find (\<lambda>d. daily_chance_of_rain (day d) < 20 \<and> totalprecip_mm (day d) < 2)
                             (forecastday forecast) of
                        Some nextDryDay \<Rightarrow> [generateIrrigationAlert nextDryDay crops soilData]
                      | None \<Rightarrow> [])
                else []);
          a2 = a1 @
               (case soilData of
                  None \<Rightarrow> []
                | Some s \<Rightarrow> (case generateFertilizerAlert rt s crops of
                              Some fertilizerAlert \<Rightarrow> [fertilizerAlert]
                            | None \<Rightarrow> []))
      in a2 @ generateHarvestAlerts rt crops)"

text \<open>
  The function proper, on the values its four fetches returned: the forecast (null when
  the weather service failed), the active crops, the soil record and the disease logs of
  the last week. An exception anywhere is caught and gives the empty list.
\<close>

definition generateSmartAlerts ::
  "runtime \<Rightarrow> DetailedWeatherForecast option \<Rightarrow> CropCycle list \<Rightarrow> SoilRecord option
     \<Rightarrow> disease_logs_row list \<Rightarrow> SmartAlert list" where
  "generateSmartAlerts rt forecast crops soilData recentDiseases =
     (case forecast of
        None \<Rightarrow> []
      | Some fc \<Rightarrow>
          let collected = collectedAlerts rt fc crops soilData recentDiseases in
          if length collected < 3
          then (case generateFillerAlerts rt fc crops soilData (length collected) of
                  None \<Rightarrow> []
                | Some fillerAlerts \<Rightarrow> sortAndLimit (collected @ fillerAlerts))
          else sortAndLimit collected)"

section \<open>lib/location-sync.ts and lib/user-location.ts\<close>

subsection \<open>Data\<close>

text \<open>\<open>interface LocationData\<close> of services/geolocationService.ts.\<close>

record LocationData =
  latitude :: real
  longitude :: real
  accuracy :: real
  city :: "string option"
  state :: "string option"
  country :: "string option"

text \<open>
  The object updateUserLocation returns: the six properties of the location and
  \<open>location_updated_at\<close>, here the instant that \<open>new Date().toISOString()\<close> prints.
\<close>

record UserLocation = LocationData +
  location_updated_at :: timestamp

text \<open>\<open>s || null\<close> on an optional string: the empty string is falsy.\<close>

definition orNull :: "string option \<Rightarrow> string option" where
  "orNull s = (case s of None \<Rightarrow> None | Some v \<Rightarrow> if v = [] then None else Some v)"

subsection \<open>saveLocationToDatabase\<close>

text \<open>
  \<open>.from('users').update({ latitude, longitude, location_accuracy, city, state, country,
  location_updated_at }).eq('id', user.id)\<close>; \<open>false\<close> without a signed-in user or on
  an error, \<open>true\<close> otherwise.
\<close>

definition saveLocationToDatabase ::
  "backend \<Rightarrow> timestamp \<Rightarrow> 'a LocationData_scheme \<Rightarrow> bool \<times> backend" where
  "saveLocationToDatabase db savedAt locationData =
     (case getCurrentUser db of
        None \<Rightarrow> (False, db)
      | Some user \<Rightarrow>
          (case request_error db UpdateUsersLocation of
             Some e \<Rightarrow> (False, db)
           | None \<Rightarrow>
               (True,
                db\<lparr>users :=
                     map (\<lambda>r. if users_id r = user
                               then r\<lparr>col_latitude := Some (latitude locationData),
                                      col_longitude := Some (longitude locationData),
                                      col_location_accuracy := Some (accuracy locationData),
                                      col_city := orNull (city locationData),
                                      col_state := orNull (state locationData),
                                      col_country := orNull (country locationData),
                                      col_location_updated_at := Some savedAt\<rparr>
                               else r)
                         (users db)\<rparr>)))"

subsection \<open>updateUserLocation as a state machine\<close>

text \<open>
  The function is asynchronous: it runs until its next \<open>await\<close>, and other code,
  further invocations included, runs before it resumes. An invocation in flight is
  suspended at one of its three awaits.
\<close>

datatype suspended =
    AtGetCurrentUser
  | AtGetCurrentLocation
  | AtSaveLocation LocationData

text \<open>
  The module variables, the database, the invocations in flight (oldest first), and the
  values that finished invocations resolved to (\<open>None\<close> is null), in order.
\<close>

record module =
  locationUpdateInProgress :: bool
  permissionDenied :: bool
  lastPermissionCheck :: timestamp
  database :: backend
  inFlight :: "suspended list"
  resolved :: "UserLocation option list"

definition PERMISSION_CHECK_COOLDOWN :: int where
  "PERMISSION_CHECK_COOLDOWN = 60000"

definition fallbackLocation :: LocationData where
  "fallbackLocation =
     \<lparr>latitude = 28.6872, longitude = 77.2140, accuracy = 1000,
      city = Some ''Delhi'', state = Some ''Delhi'', country = Some ''India''\<rparr>"

datatype event =
    Invoke timestamp
  | UserResolves nat
  | LocationResolves nat "LocationData option"
  | SaveResolves nat timestamp timestamp
  | AwaitRejects nat
  | ResetPermissionDenied
  | BackendChanges backend

text \<open>
  Leaving the \<open>try\<close> block with value \<open>r\<close>: the \<open>finally\<close> clause clears the flag
  and the invocation \<open>k\<close> is over.
\<close>

definition finish :: "nat \<Rightarrow> UserLocation option \<Rightarrow> module \<Rightarrow> module" where
  "finish k r m =
     m\<lparr>locationUpdateInProgress := False,
       inFlight := take k (inFlight m) @ drop (Suc k) (inFlight m),
       resolved := resolved m @ [r]\<rparr>"

text \<open>
  One step of the event loop.
  \<^item> \<open>Invoke now\<close>: lines 19-36, up to \<open>await getCurrentUser()\<close>.
  \<^item> \<open>UserResolves k\<close>: lines 36-40 of invocation \<open>k\<close>.
  \<^item> \<open>LocationResolves k location\<close>: lines 40-58 or 40-76, with the value
    \<open>getCurrentLocation()\<close> resolved to.
  \<^item> \<open>SaveResolves k savedAt returnedAt\<close>: the save and lines 59-69 or 77-88.
  \<^item> \<open>AwaitRejects k\<close>: the pending await throws; lines 89-94.
  \<^item> \<open>ResetPermissionDenied\<close>: the exported function of that name.
  \<^item> \<open>BackendChanges db\<close>: anything else that happens to the database or session.
  An event addressed to an invocation that is not suspended there does nothing.
\<close>

fun step :: "module \<Rightarrow> event \<Rightarrow> module" where
  "step m (Invoke now) =
     (if locationUpdateInProgress m then m\<lparr>resolved := resolved m @ [None]\<rparr>
      else if permissionDenied m \<and> now - lastPermissionCheck m < PERMISSION_CHECK_COOLDOWN
           then m\<lparr>resolved := resolved m @ [None]\<rparr>
      else m\<lparr>locationUpdateInProgress := True, lastPermissionCheck := now,
             inFlight := inFlight m @ [AtGetCurrentUser]\<rparr>)"
| "step m (UserResolves k) =
     (if k < length (inFlight m) \<and> inFlight m ! k = AtGetCurrentUser
      then (case getCurrentUser (database m) of
              None \<Rightarrow> finish k None m
            | Some user \<Rightarrow> m\<lparr>inFlight := (inFlight m)[k := AtGetCurrentLocation]\<rparr>)
      else m)"
| "step m (LocationResolves k location) =
     (if k < length (inFlight m) \<and> inFlight m ! k = AtGetCurrentLocation
      then (case location of
              None \<Rightarrow> m\<lparr>permissionDenied := True,
                         inFlight := (inFlight m)[k := AtSaveLocation fallbackLocation]\<rparr>
            | Some l \<Rightarrow> m\<lparr>permissionDenied := False,
                           inFlight := (inFlight m)[k := AtSaveLocation l]\<rparr>)
      else m)"
| "step m (SaveResolves k savedAt returnedAt) =
     (if k < length (inFlight m)
      then (case inFlight m ! k of
              AtSaveLocation l \<Rightarrow>
                (case saveLocationToDatabase (database m) savedAt l of
                   (saved, db') \<Rightarrow>
                     if \<not> saved then finish k None (m\<lparr>database := db'\<rparr>)
                     else finish k
                            (Some (LocationData.extend l
                                     (UserLocation.fields returnedAt)))
                            (m\<lparr>database := db'\<rparr>))
            | _ \<Rightarrow> m)
      else m)"
| "step m (AwaitRejects k) =
     (if k < length (inFlight m) then finish k None m else m)"
| "step m ResetPermissionDenied =
     m\<lparr>permissionDenied := False, lastPermissionCheck := 0\<rparr>"
| "step m (BackendChanges db) = m\<lparr>database := db\<rparr>"

definition run :: "module \<Rightarrow> event list \<Rightarrow> module" where
  "run m es = foldl step m es"

text \<open>The module when it is loaded: lines 8-12.\<close>

definition loaded :: "backend \<Rightarrow> module" where
  "loaded db =
     \<lparr>locationUpdateInProgress = False, permissionDenied = False, lastPermissionCheck = 0,
      database = db, inFlight = [], resolved = []\<rparr>"

text \<open>
  The guard-flag invariant: at most one invocation is in flight, and the flag is set
  exactly while one is.
\<close>

definition guarded :: "module \<Rightarrow> bool" where
  "guarded m \<longleftrightarrow>
     length (inFlight m) \<le> 1 \<and> (locationUpdateInProgress m \<longleftrightarrow> inFlight m \<noteq> [])"

section \<open>services/cropAdvisoryAI.ts\<close>

subsection \<open>Text\<close>

text \<open>
  A JavaScript string is its sequence of UTF-16 code units. The Devanagari, Telugu and
  Tamil literals of the source are written out as code units; language codes and other
  ASCII literals stay \<open>string\<close>s.
\<close>

type_synonym utf16 = "nat list"

text \<open>
  The code units that \<open>String.prototype.trim\<close> removes: WhiteSpace and LineTerminator.
\<close>

definition isWhiteSpace :: "nat \<Rightarrow> bool" where
  "isWhiteSpace c \<longleftrightarrow>
     c \<in> {9, 10, 11, 12, 13, 32, 160, 5760, 8232, 8233, 8239, 8287, 12288, 65279}
     \<or> (8192 \<le> c \<and> c \<le> 8202)"

definition trim :: "utf16 \<Rightarrow> utf16" where
  "trim s = rev (dropWhile isWhiteSpace (rev (dropWhile isWhiteSpace s)))"

subsection \<open>The fallback texts (lines 1202-1209 and 1215-1229)\<close>

definition fallback_hi :: utf16 where
  "fallback_hi =
     [2344, 2350, 2360, 2381, 2340, 2375, 33, 32, 2350, 2376, 2306, 32, 2310, 2346,
      2325, 2368, 32, 2326, 2375, 2340, 2368, 32, 2350, 2375, 2306, 32, 2350, 2342,
      2342, 32, 2325, 2352, 2344, 2375, 32, 2325, 2375, 32, 2354, 2367, 2319, 32, 2351,
      2361, 2366, 2305, 32, 2361, 2370, 2305, 2404, 32, 2325, 2371, 2346, 2351, 2366,
      32, 2309, 2346, 2344, 2366, 32, 2360, 2357, 2366, 2354, 32, 2347, 2367, 2352, 32,
      2360, 2375, 32, 2346, 2370, 2331, 2375, 2306, 2404]"

definition fallback_mr :: utf16 where
  "fallback_mr =
     [2344, 2350, 2360, 2381, 2325, 2366, 2352, 33, 32, 2350, 2368, 32, 2340, 2369,
      2350, 2330, 2381, 2351, 2366, 32, 2358, 2375, 2340, 2368, 2360, 2366, 2336, 2368,
      32, 2350, 2342, 2340, 32, 2325, 2352, 2339, 2381, 2351, 2366, 2360, 2366, 2336,
      2368, 32, 2351, 2375, 2341, 2375, 32, 2310, 2361, 2375, 2404, 32, 2325, 2371,
      2346, 2351, 2366, 32, 2340, 2369, 2350, 2330, 2366, 32, 2346, 2381, 2352, 2358,
      2381, 2344, 32, 2346, 2369, 2344, 2381, 2361, 2366, 32, 2357, 2367, 2330, 2366,
      2352, 2366, 2404]"

definition fallback_te :: utf16 where
  "fallback_te =
     [3112, 3118, 3128, 3149, 3093, 3134, 3120, 3074, 33, 32, 3112, 3143, 3112, 3137,
      32, 3118, 3136, 32, 3125, 3149, 3119, 3125, 3128, 3134, 3119, 3074, 3122, 3147,
      32, 3128, 3129, 3134, 3119, 3074, 32, 3098, 3143, 3119, 3105, 3134, 3112, 3135,
      3093, 3135, 32, 3079, 3093, 3149, 3093, 3105, 32, 3081, 3112, 3149, 3112, 3134,
      3112, 3137, 2404, 32, 3110, 3119, 3098, 3143, 3128, 3135, 32, 3118, 3136, 32,
      3114, 3149, 3120, 3126, 3149, 3112, 3112, 3137, 32, 3118, 3123, 3149, 3122, 3136,
      32, 3077, 3105, 3095, 3074, 3105, 3135, 2404]"

definition fallback_ta :: utf16 where
  "fallback_ta =
     [2997, 2979, 2965, 3021, 2965, 2990, 3021, 33, 32, 2953, 2969, 3021, 2965, 2995,
      3021, 32, 2997, 3007, 2997, 2970, 3006, 2991, 2980, 3021, 2980, 3007, 2994, 3021,
      32, 2953, 2980, 2997, 32, 2984, 3006, 2985, 3021, 32, 2951, 2969, 3021, 2965,
      3015, 32, 2951, 2992, 3009, 2965, 3021, 2965, 3007, 2993, 3015, 2985, 3021, 46,
      32, 2980, 2991, 2997, 3009, 2970, 3014, 2991, 3021, 2980, 3009, 32, 2953, 2969,
      3021, 2965, 2995, 3021, 32, 2965, 3015, 2995, 3021, 2997, 3007, 2991, 3016, 32,
      2990, 3008, 2979, 3021, 2975, 3009, 2990, 3021, 32, 2965, 3015, 2995, 3009, 2969,
      3021, 2965, 2995, 3021, 46]"

definition fallback_en :: utf16 where
  "fallback_en =
     map of_char ''Hello! I am here to help with your farming. Please ask your question again.''"

definition fallback_mixed :: utf16 where
  "fallback_mixed =
     [2344, 2350, 2360, 2381, 2340, 2375, 33, 32, 2350, 2376, 2306, 32, 2310, 2346,
      2325, 2368, 32, 102, 97, 114, 109, 105, 110, 103, 32, 2350, 2375, 2306, 32, 104,
      101, 108, 112, 32, 2325, 2352, 2344, 2375, 32, 2325, 2375, 32, 2354, 2367, 2319,
      32, 2351, 2361, 2366, 2305, 32, 2361, 2370, 2305, 2404, 32, 80, 108, 101, 97,
      115, 101, 32, 97, 115, 107, 32, 121, 111, 117, 114, 32, 113, 117, 101, 115, 116,
      105, 111, 110, 32, 97, 103, 97, 105, 110, 2404]"

definition fallback_action :: utf16 where
  "fallback_action =
     [2350, 2367, 2335, 2381, 2335, 2368, 32, 2325, 2368, 32, 2332, 2366, 2306, 2330,
      32, 2325, 2352, 2375, 2306, 32, 47, 32, 67, 104, 101, 99, 107, 32, 115, 111, 105,
      108, 32, 104, 101, 97, 108, 116, 104]"

definition fallback_tip1 :: utf16 where
  "fallback_tip1 =
     [2344, 2367, 2351, 2350, 2367, 2340, 32, 2352, 2370, 2346, 32, 2360, 2375, 32,
      2326, 2375, 2340, 32, 2325, 2366, 32, 2344, 2367, 2352, 2368, 2325, 2381, 2359,
      2339, 32, 2325, 2352, 2375, 2306]"

definition fallback_tip2 :: utf16 where
  "fallback_tip2 =
     [2350, 2380, 2360, 2350, 32, 2325, 2368, 32, 2332, 2366, 2344, 2325, 2366, 2352,
      2368, 32, 2352, 2326, 2375, 2306]"

definition fallback_question1 :: utf16 where
  "fallback_question1 =
     [2310, 2346, 32, 2325, 2380, 2344, 32, 2360, 2368, 32, 2347, 2360, 2354, 32, 2313,
      2327, 2366, 2344, 2366, 32, 2330, 2366, 2361, 2340, 2375, 32, 2361, 2376, 2306,
      63]"

definition fallback_question2 :: utf16 where
  "fallback_question2 =
     [2310, 2346, 2325, 2368, 32, 2350, 2367, 2335, 2381, 2335, 2368, 32, 2325, 2366,
      32, 2346, 2381, 2352, 2325, 2366, 2352, 32, 2325, 2381, 2351, 2366, 32, 2361,
      2376, 63]"

text \<open>
  What \<open>fallbackMessages[language]\<close> evaluates to. The object literal has six own
  properties, each a string; like every object literal it inherits the members of
  \<open>Object.prototype\<close>, which are functions (and, for \<open>__proto__\<close>, the prototype
  object), not strings. Any other key gives undefined, here \<open>None\<close>.
\<close>

datatype property_value =
    StringValue utf16
  | InheritedMember string

definition objectPrototypeMembers :: "string list" where
  "objectPrototypeMembers =
     [''constructor'', ''__defineGetter__'', ''__defineSetter__'', ''hasOwnProperty'',
      ''__lookupGetter__'', ''__lookupSetter__'', ''isPrototypeOf'',
      ''propertyIsEnumerable'', ''toString'', ''valueOf'', ''__proto__'',
      ''toLocaleString'']"

definition fallbackMessages :: "string \<Rightarrow> property_value option" where
  "fallbackMessages key =
     (case map_of [(''hi'', fallback_hi), (''mr'', fallback_mr), (''te'', fallback_te),
                   (''ta'', fallback_ta), (''en'', fallback_en), (''mixed'', fallback_mixed)]
             key of
        Some msg \<Rightarrow> Some (StringValue msg)
      | None \<Rightarrow>
          if key \<in> set objectPrototypeMembers then Some (InheritedMember key) else None)"

text \<open>\<open>v || w\<close>: the empty string is falsy, functions and objects are truthy.\<close>

definition isTruthy :: "property_value \<Rightarrow> bool" where
  "isTruthy v = (case v of StringValue msg \<Rightarrow> msg \<noteq> [] | InheritedMember k \<Rightarrow> True)"

subsection \<open>Context and response\<close>

text \<open>
  \<open>interface FarmerContext\<close>, reduced to the farmer profile: farm data, weather and
  conversation history feed the prompt only. A property that is absent or undefined is
  \<open>None\<close>. The language is a string: the database column
  \<open>users.preferred_language\<close> is free text.
\<close>

record FarmerProfile =
  name :: "string option"
  location :: "string option"
  farmSize :: "real option"
  preferredLanguage :: "string option"
  experienceLevel :: "string option"

record FarmerContext =
  farmerId :: "string option"
  sessionId :: "string option"
  farmerProfile :: "FarmerProfile option"

record SuggestedAction =
  action :: utf16
  action_priority :: string
  timing :: string

text \<open>
  \<open>interface CropAdvisoryResponse\<close>; the optional \<open>visualAids\<close>, which the fallback
  never sets, is left out. \<open>message\<close> is declared a string; at run time it holds
  whatever the lookup in \<open>fallbackMessages\<close> gave.
\<close>

record CropAdvisoryResponse =
  message :: property_value
  detectedLanguage :: string
  category :: string
  suggestedActions :: "SuggestedAction list"
  quickTips :: "utf16 list"
  followUpQuestions :: "utf16 list"
  alertLevel :: string
  confidence :: real

text \<open>\<open>a || b\<close> on optional strings: null, undefined and the empty string are falsy.\<close>

definition truthy :: "string option \<Rightarrow> bool" where
  "truthy s \<longleftrightarrow> (case s of None \<Rightarrow> False | Some v \<Rightarrow> v \<noteq> [])"

subsection \<open>getFallbackResponse\<close>

text \<open>\<open>p?.f\<close>: the property of an object that may be missing.\<close>

definition property :: "('p \<Rightarrow> 'a option) \<Rightarrow> 'p option \<Rightarrow> 'a option" where
  "property f p = (case p of None \<Rightarrow> None | Some q \<Rightarrow> f q)"

definition getFallbackResponse :: "FarmerContext \<Rightarrow> CropAdvisoryResponse" where
  "getFallbackResponse context =
     (let language = (case property preferredLanguage (farmerProfile context) of
                        Some l \<Rightarrow> if l \<noteq> [] then l else ''mixed''
                      | None \<Rightarrow> ''mixed'')
      in \<lparr>message = (case fallbackMessages language of
                       Some v \<Rightarrow> if isTruthy v then v else StringValue fallback_mixed
                     | None \<Rightarrow> StringValue fallback_mixed),
           detectedLanguage = language,
           category = ''general'',
           suggestedActions =
             [\<lparr>action = fallback_action, action_priority = ''medium'', timing = ''this_week''\<rparr>],
           quickTips = [fallback_tip1, fallback_tip2],
           followUpQuestions = [fallback_question1, fallback_question2],
           alertLevel = ''info'',
           confidence = 0.6\<rparr>)"

subsection \<open>generateAdvice\<close>

text \<open>
  Lines 338-359: the context handed on. The profile is the database profile overlaid
  with the caller's; the language is the caller's, else the database's, else \<open>mixed\<close>.
\<close>

definition overlay :: "'a option \<Rightarrow> 'a option \<Rightarrow> 'a option" where
  "overlay a b = (case b of Some v \<Rightarrow> Some v | None \<Rightarrow> a)"

definition enrichedProfile :: "FarmerProfile option \<Rightarrow> FarmerProfile option \<Rightarrow> FarmerProfile" where
  "enrichedProfile ui db =
     \<lparr>name = overlay (property name db) (property name ui),
      location = overlay (property location db) (property location ui),
      farmSize = overlay (property farmSize db) (property farmSize ui),
      preferredLanguage =
        Some (if truthy (property preferredLanguage ui) then the (property preferredLanguage ui)
              else if truthy (property preferredLanguage db)
                   then the (property preferredLanguage db)
              else ''mixed''),
      experienceLevel = overlay (property experienceLevel db) (property experienceLevel ui)\<rparr>"

definition enrichedContext :: "FarmerContext \<Rightarrow> FarmerContext \<Rightarrow> FarmerContext" where
  "enrichedContext context dbContext =
     \<lparr>farmerId = overlay (farmerId context) (farmerId dbContext),
      sessionId = overlay (sessionId context) (sessionId dbContext),
      farmerProfile = Some (enrichedProfile (farmerProfile context) (farmerProfile dbContext))\<rparr>"

text \<open>
  The service object after \<open>initializeService\<close>: whether \<open>this.model\<close> is set, and
  the API key.
\<close>

record CropAdvisoryAI =
  model :: bool
  apiKey :: string

text \<open>
  What the call to the generative model does: an exception inside the \<open>try\<close> block
  (from building the prompt or from \<open>generateContent\<close>), the 25 second timer winning
  the race, a result without \<open>response\<close>, \<open>response.text()\<close> throwing, or a text.
\<close>

datatype generation =
    Throws string
  | TimesOut
  | NoResponse
  | TextThrows string
  | Text utf16

text \<open>Lines 389-472, the \<open>try\<close> block: \<open>Inl\<close> is the exception it raises.\<close>

definition tryGenerate ::
  "(utf16 \<Rightarrow> FarmerContext \<Rightarrow> CropAdvisoryResponse) \<Rightarrow> FarmerContext \<Rightarrow> generation
     \<Rightarrow> string + CropAdvisoryResponse" where
  "tryGenerate parseResponse enriched call =
     (case call of
        Throws e \<Rightarrow> Inl e
      | TimesOut \<Rightarrow> Inl ''Response timeout''
      | NoResponse \<Rightarrow> Inl ''No response from model''
      | TextThrows e \<Rightarrow> Inl e
      | Text generatedText \<Rightarrow>
          if generatedText = [] \<or> trim generatedText = []
          then Inl ''Empty response from model''
          else Inr (parseResponse generatedText enriched))"

text \<open>
  The function, on the database context that \<open>fetchFarmContext\<close> returned and the
  behaviour of the model call; \<open>parseResponse\<close>, which handles the text of a successful
  call, is a parameter. Storing an attached image does not enter the result.
\<close>

definition generateAdvice ::
  "CropAdvisoryAI \<Rightarrow> (utf16 \<Rightarrow> FarmerContext \<Rightarrow> CropAdvisoryResponse)
     \<Rightarrow> FarmerContext \<Rightarrow> FarmerContext \<Rightarrow> generation \<Rightarrow> CropAdvisoryResponse" where
  "generateAdvice service parseResponse context dbContext call =
     (let enriched = enrichedContext context dbContext in
      if \<not> model service \<or> apiKey service = [] then getFallbackResponse enriched
      else (case tryGenerate parseResponse enriched call of
              Inl thrown \<Rightarrow> getFallbackResponse enriched
            | Inr advice \<Rightarrow> advice))"

section \<open>Sample data\<close>

text \<open>A small farm, two forecast days and a clock, for the examples below.\<close>

definition wheat :: CropCycle where
  "wheat = \<lparr>crop_id = 1, crop_name = ''Wheat'', sowing_date = ''2025-01-10'',
            expected_harvest_date = Some ''2025-05-10'', current_stage = ''growing'',
            predicted_yield = None, is_active = True, user_id = ''u1''\<rparr>"

definition wheat_row :: crop_cycles_row where
  "wheat_row = CropCycle.extend wheat
     (crop_cycles_row.fields None None (Some 0))"

definition rice_row :: crop_cycles_row where
  "rice_row = \<lparr>crop_id = 2, crop_name = ''Rice'', sowing_date = ''2025-02-01'',
            expected_harvest_date = None, current_stage = ''sowing'',
            predicted_yield = None, is_active = True, user_id = ''u1'',
            manual_status = None, manual_status_updated_at = None,
            updated_at = Some 0\<rparr>"

definition rust_log :: disease_logs_row where
  "rust_log = \<lparr>log_user_id = ''u1'', crop_cycle_id = Some 1, detection_date = 1762000000000,
               disease_name = ''Leaf rust'', severity = Some ''severe''\<rparr>"

definition blight_log :: disease_logs_row where
  "blight_log = \<lparr>log_user_id = ''u1'', crop_cycle_id = Some 1, detection_date = 1761000000000,
               disease_name = ''Blight'', severity = Some ''mild''\<rparr>"

definition february_log :: disease_logs_row where
  "february_log = \<lparr>log_user_id = ''u1'', crop_cycle_id = Some 1,
               detection_date = 1739190600000,
               disease_name = ''Leaf rust'', severity = Some ''severe''\<rparr>"

text \<open>
  Two time zones: UTC, where a calendar day is 24 hours, and New York in 2025, five hours
  behind UTC and four during daylight saving time (from 2025-03-09 07:00 UTC to
  2025-11-02 06:00 UTC). The local date is moved back and read with the offset in
  force on the day it lands on.
\<close>

definition utc :: timezone where
  "utc now n = now - n * 86400000"

definition newYorkOffset :: "timestamp \<Rightarrow> int" where
  "newYorkOffset t =
     (if 1741503600000 \<le> t \<and> t < 1762063200000 then - 14400000 else - 18000000)"

definition newYork :: timezone where
  "newYork now n =
     (let wall = now + newYorkOffset now - n * 86400000
      in wall - newYorkOffset (wall - newYorkOffset now))"

definition farmer :: users_row where
  "farmer = \<lparr>users_id = ''u1'', col_latitude = None, col_longitude = None,
              col_location_accuracy = None, col_city = None, col_state = None,
              col_country = None, col_location_updated_at = None\<rparr>"

definition farm :: "disease_logs_row list \<Rightarrow> backend" where
  "farm logs = \<lparr>auth_user = Some ''u1'', users = [farmer], crop_cycles = [wheat_row, rice_row],
                 disease_logs = logs, request_error = (\<lambda>_. None)\<rparr>"

definition failing :: "request \<Rightarrow> backend \<Rightarrow> backend" where
  "failing q db = db\<lparr>request_error := (\<lambda>q'. if q' = q then Some ''fetch failed'' else None)\<rparr>"

definition clock :: runtime where
  "clock = \<lparr>currentTime = 0, todayISO = ''2025-06-01'', parseDate = (\<lambda>s. None)\<rparr>"

definition storm :: ForecastDay where
  "storm = \<lparr>date = ''2025-06-01'', date_epoch = 1748736000,
            day = \<lparr>maxtemp_c = 30, mintemp_c = 20, avgtemp_c = 25, maxwind_kph = 10,
                   totalprecip_mm = 60, avghumidity = 70, daily_chance_of_rain = 80,
                   condition_text = ''Heavy rain'', uv = 3\<rparr>\<rparr>"

definition scorcher :: ForecastDay where
  "scorcher = \<lparr>date = ''2025-06-02'', date_epoch = 1748822400,
            day = \<lparr>maxtemp_c = 42, mintemp_c = 4, avgtemp_c = 25, maxwind_kph = 65,
                   totalprecip_mm = 10, avghumidity = 70, daily_chance_of_rain = 75,
                   condition_text = ''Odd'', uv = 9\<rparr>\<rparr>"

section \<open>Properties of lib/crop-db.ts\<close>

subsection \<open>Classification by thresholds\<close>

lemma getCropStatus_no_override:
  assumes "manualOverride tz now (select_manual_status db (crop_id crop)) = None"
      and "request_error db SelectDiseaseLogs = None"
  shows "getCropStatus db tz now crop =
           classifyDiseaseLogs (Some (sort_key (\<lambda>d. - detection_date d)
             (filter (\<lambda>d. crop_cycle_id d = Some (crop_id crop)
                              \<and> daysAgo tz now 30 \<le> detection_date d) (disease_logs db))))"
  using assms
  by (simp add: getCropStatus_def getCropStatus_run_def select_disease_logs_def succeeded_def)

lemma classify_two: "2 \<le> length logs \<Longrightarrow> classifyDiseaseLogs (Some logs) = Critical"
  by (auto simp: classifyDiseaseLogs_def)

lemma classify_severe:
  assumes "d \<in> set logs" "severity d = Some ''severe''"
  shows "classifyDiseaseLogs (Some logs) = Critical"
proof -
  have "d \<in> set (filter (\<lambda>d. severity d = Some ''severe'') logs)" using assms by simp
  then have "0 < length (filter (\<lambda>d. severity d = Some ''severe'') logs)"
    by (metis length_pos_if_in_set)
  moreover have "logs \<noteq> []" using assms by auto
  ultimately show ?thesis by (simp add: classifyDiseaseLogs_def Let_def)
qed

lemma classify_single:
  assumes "severity d = Some ''mild'' \<or> severity d = Some ''moderate''"
  shows "classifyDiseaseLogs (Some [d]) = Attention"
  using assms by (auto simp: classifyDiseaseLogs_def)

lemma classify_empty: "classifyDiseaseLogs (Some []) = Healthy"
  by (simp add: classifyDiseaseLogs_def)

text \<open>
  C1 as stated fails: the crop has no manual status and two disease logs from the last
  30 days, one of them severe, but the disease-log query is answered with an error, and
  the status is \<open>healthy\<close>.
\<close>

theorem getCropStatus_failed_query_counterexample:
  "manualOverride utc 1762362000000
      (select_manual_status (failing SelectDiseaseLogs (farm [rust_log, blight_log]))
         (crop_id wheat)) = None
   \<and> filter (\<lambda>d. crop_cycle_id d = Some (crop_id wheat)
                  \<and> daysAgo utc 1762362000000 30 \<le> detection_date d)
        (disease_logs (failing SelectDiseaseLogs (farm [rust_log, blight_log])))
      = [rust_log, blight_log]
   \<and> severity rust_log = Some ''severe''
   \<and> getCropStatus (failing SelectDiseaseLogs (farm [rust_log, blight_log])) utc 1762362000000
        wheat = Healthy"
  by (simp add: getCropStatus_def getCropStatus_run_def manualOverride_def
       select_manual_status_def select_disease_logs_def farm_def wheat_row_def rice_row_def
       wheat_def CropCycle.extend_def crop_cycles_row.fields_def rust_log_def blight_log_def
       failing_def succeeded_def failed_def daysAgo_def utc_def)

text \<open>
  C1, amended. For a crop with no manual status in force, in any time zone, and with the
  disease-log query answered without error, let \<open>logs\<close> be the rows of
  \<open>disease_logs\<close> for the crop dated no earlier than 30 calendar days back. Two or
  more rows, or a row of severity \<open>severe\<close>, give \<open>critical\<close>; exactly one row, of
  severity \<open>mild\<close> or \<open>moderate\<close>, gives \<open>attention\<close>; no row gives \<open>healthy\<close>.
\<close>

theorem getCropStatus_thresholds:
  assumes "manualOverride tz now (select_manual_status db (crop_id crop)) = None"
      and "request_error db SelectDiseaseLogs = None"
      and "logs = filter (\<lambda>d. crop_cycle_id d = Some (crop_id crop)
                              \<and> daysAgo tz now 30 \<le> detection_date d) (disease_logs db)"
  shows "(2 \<le> length logs \<or> (\<exists>d \<in> set logs. severity d = Some ''severe'')
            \<longrightarrow> getCropStatus db tz now crop = Critical)
       \<and> ((\<exists>d. logs = [d] \<and> (severity d = Some ''mild'' \<or> severity d = Some ''moderate''))
            \<longrightarrow> getCropStatus db tz now crop = Attention)
       \<and> (logs = [] \<longrightarrow> getCropStatus db tz now crop = Healthy)"
proof -
  let ?fetched = "sort_key (\<lambda>d. - detection_date d) logs"
  have run: "getCropStatus db tz now crop = classifyDiseaseLogs (Some ?fetched)"
    using getCropStatus_no_override [OF assms(1,2)] assms(3) by simp
  have len: "length ?fetched = length logs" and mem: "set ?fetched = set logs"
    by simp_all
  have crit: "2 \<le> length logs \<or> (\<exists>d \<in> set logs. severity d = Some ''severe'')
      \<longrightarrow> getCropStatus db tz now crop = Critical"
    using classify_two [of ?fetched] classify_severe [of _ ?fetched]
    unfolding run len mem by blast
  have att: "(\<exists>d. logs = [d] \<and> (severity d = Some ''mild'' \<or> severity d = Some ''moderate''))
      \<longrightarrow> getCropStatus db tz now crop = Attention"
    unfolding run using classify_single by auto
  have ok: "logs = [] \<longrightarrow> getCropStatus db tz now crop = Healthy"
    unfolding run using classify_empty by auto
  from crit att ok show ?thesis by blast
qed

theorem getCropStatus_thresholds_witness:
  "manualOverride newYork 1762362000000
      (select_manual_status (farm [rust_log, blight_log]) (crop_id wheat)) = None
   \<and> request_error (farm [rust_log, blight_log]) SelectDiseaseLogs = None
   \<and> length (filter (\<lambda>d. crop_cycle_id d = Some (crop_id wheat)
                              \<and> daysAgo newYork 1762362000000 30 \<le> detection_date d)
               (disease_logs (farm [rust_log, blight_log]))) = 2
   \<and> getCropStatus (farm [rust_log, blight_log]) newYork 1762362000000 wheat = Critical"
  using getCropStatus_thresholds
          [of newYork 1762362000000 "farm [rust_log, blight_log]" wheat, OF _ _ refl]
  by (simp add: manualOverride_def select_manual_status_def farm_def wheat_row_def
       rice_row_def wheat_def CropCycle.extend_def crop_cycles_row.fields_def rust_log_def
       blight_log_def succeeded_def daysAgo_def newYork_def newYorkOffset_def)

text \<open>
  The windows are calendar days. In New York on 2025-03-12 the date 30 days back lies
  before the change to daylight saving time, and the window starts an hour later than
  30 times 24 hours ago: a severe log from that hour counts in UTC and not in New York.
\<close>

lemma getCropStatus_local_calendar:
  "daysAgo utc 1741780800000 30 = 1739188800000"
  "daysAgo newYork 1741780800000 30 = 1739192400000"
  "getCropStatus (farm [february_log]) utc 1741780800000 wheat = Critical"
  "getCropStatus (farm [february_log]) newYork 1741780800000 wheat = Healthy"
  by (simp_all add: getCropStatus_def getCropStatus_run_def manualOverride_def
       select_manual_status_def select_disease_logs_def classifyDiseaseLogs_def farm_def
       wheat_row_def rice_row_def wheat_def CropCycle.extend_def crop_cycles_row.fields_def
       february_log_def succeeded_def daysAgo_def utc_def newYork_def newYorkOffset_def)

subsection \<open>The manual status takes precedence\<close>

text \<open>
  C4 as stated fails: in New York on 2025-11-05 the farm with one severe log is
  \<open>critical\<close>; when \<open>updateCropStatus\<close> has recorded \<open>healthy\<close> seven calendar days
  before, less half an hour, the same logs give \<open>healthy\<close>.
\<close>

theorem getCropStatus_manual_status_counterexample:
  "filter (\<lambda>d. crop_cycle_id d = Some (crop_id wheat)
                \<and> daysAgo newYork 1762362000000 30 \<le> detection_date d)
      (disease_logs (snd (updateCropStatus (farm [rust_log]) 1761755400000 1 Healthy)))
   = filter (\<lambda>d. crop_cycle_id d = Some (crop_id wheat)
                \<and> daysAgo newYork 1762362000000 30 \<le> detection_date d)
      (disease_logs (farm [rust_log]))
   \<and> getCropStatus (farm [rust_log]) newYork 1762362000000 wheat = Critical
   \<and> getCropStatus (snd (updateCropStatus (farm [rust_log]) 1761755400000 1 Healthy))
        newYork 1762362000000 wheat = Healthy"
  by (simp add: getCropStatus_def getCropStatus_run_def manualOverride_def updateCropStatus_def
       update_crop_cycles_def getCurrentUser_def select_manual_status_def
       select_disease_logs_def classifyDiseaseLogs_def farm_def wheat_row_def rice_row_def
       wheat_def CropCycle.extend_def crop_cycles_row.fields_def rust_log_def succeeded_def
       failed_def daysAgo_def newYork_def newYorkOffset_def)

text \<open>
  C4, amended. In any time zone, two states in which the crop has no manual status in
  force (none set later than 7 calendar days back), in which the disease-log query is
  answered in both or fails in both, and whose \<open>disease_logs\<close> rows for the crop dated
  no earlier than 30 calendar days back are equal, give the same status, whatever else
  is stored.
\<close>

theorem getCropStatus_same_logs_same_status:
  assumes "manualOverride tz now (select_manual_status db1 (crop_id crop)) = None"
      and "manualOverride tz now (select_manual_status db2 (crop_id crop)) = None"
      and "request_error db1 SelectDiseaseLogs = None
             \<longleftrightarrow> request_error db2 SelectDiseaseLogs = None"
      and "filter (\<lambda>d. crop_cycle_id d = Some (crop_id crop)
                        \<and> daysAgo tz now 30 \<le> detection_date d) (disease_logs db1)
         = filter (\<lambda>d. crop_cycle_id d = Some (crop_id crop)
                        \<and> daysAgo tz now 30 \<le> detection_date d) (disease_logs db2)"
  shows "getCropStatus db1 tz now crop = getCropStatus db2 tz now crop"
  using assms
  by (auto simp: getCropStatus_def getCropStatus_run_def select_disease_logs_def
        succeeded_def failed_def Let_def split: option.splits)

text \<open>
  A manual status recorded at 1761753600000, exactly seven calendar days before in New
  York, is no longer in force there, and the status is that of the logs.
\<close>

theorem getCropStatus_same_logs_same_status_witness:
  "manualOverride newYork 1762362000000
      (select_manual_status (farm [rust_log]) (crop_id wheat)) = None
   \<and> manualOverride newYork 1762362000000
        (select_manual_status (snd (updateCropStatus (farm [rust_log]) 1761753600000 1 Healthy))
           (crop_id wheat)) = None
   \<and> crop_cycles (snd (updateCropStatus (farm [rust_log]) 1761753600000 1 Healthy))
       \<noteq> crop_cycles (farm [rust_log])
   \<and> getCropStatus (farm [rust_log]) newYork 1762362000000 wheat
       = getCropStatus (snd (updateCropStatus (farm [rust_log]) 1761753600000 1 Healthy))
           newYork 1762362000000 wheat"
  using getCropStatus_same_logs_same_status
          [of newYork 1762362000000 "farm [rust_log]" wheat
              "snd (updateCropStatus (farm [rust_log]) 1761753600000 1 Healthy)"]
  by (simp add: manualOverride_def updateCropStatus_def update_crop_cycles_def
       getCurrentUser_def select_manual_status_def farm_def wheat_row_def rice_row_def
       wheat_def CropCycle.extend_def crop_cycles_row.fields_def rust_log_def succeeded_def
       failed_def daysAgo_def newYork_def newYorkOffset_def)

subsection \<open>A failed disease-log query\<close>

text \<open>
  C5. Whenever getCropStatus issues the disease-log query and the query is answered with
  an error, the result is \<open>healthy\<close>, for every crop and every error.
\<close>

theorem getCropStatus_query_error:
  assumes "SelectDiseaseLogs \<in> set (getCropStatus_requests db tz now crop)"
      and "request_error db SelectDiseaseLogs = Some e"
  shows "getCropStatus db tz now crop = Healthy"
  using assms
  by (auto simp: getCropStatus_def getCropStatus_requests_def getCropStatus_run_def
        select_disease_logs_def failed_def Let_def split: option.splits)

theorem getCropStatus_query_error_witness:
  "SelectDiseaseLogs
     \<in> set (getCropStatus_requests (failing SelectDiseaseLogs (farm [rust_log, blight_log]))
              utc 1762362000000 wheat)
   \<and> request_error (failing SelectDiseaseLogs (farm [rust_log, blight_log])) SelectDiseaseLogs
       = Some ''fetch failed''
   \<and> getCropStatus (failing SelectDiseaseLogs (farm [rust_log, blight_log]))
        utc 1762362000000 wheat = Healthy"
  using getCropStatus_query_error
          [of "failing SelectDiseaseLogs (farm [rust_log, blight_log])" utc 1762362000000 wheat
              "''fetch failed''"]
  by (simp add: getCropStatus_requests_def getCropStatus_run_def manualOverride_def
       select_manual_status_def farm_def wheat_row_def rice_row_def wheat_def
       CropCycle.extend_def crop_cycles_row.fields_def rust_log_def blight_log_def
       failing_def succeeded_def failed_def select_disease_logs_def)

subsection \<open>Harvesting clears the active flag and stamps the row\<close>

lemma set_getActiveCrops:
  "set (getActiveCrops db)
     \<subseteq> {r \<in> set (crop_cycles db). Some (user_id r) = auth_user db \<and> is_active r}"
  by (auto simp: getActiveCrops_def getCurrentUser_def split: option.splits)

text \<open>
  C7 as stated fails: after a successful markCropAsHarvested the row is not the old row
  with \<open>is_active\<close> cleared and nothing else changed; the update trigger has rewritten
  its \<open>updated_at\<close>.
\<close>

theorem markCropAsHarvested_updated_at_counterexample:
  "getCurrentUser (farm []) = Some ''u1'' \<and> user_id wheat_row = ''u1'' \<and> crop_id wheat_row = 1
   \<and> crop_cycles (farm []) = [wheat_row, rice_row]
   \<and> fst (markCropAsHarvested (farm []) 1762362000000 1) = True
   \<and> crop_cycles (snd (markCropAsHarvested (farm []) 1762362000000 1))
       \<noteq> [wheat_row\<lparr>is_active := False\<rparr>, rice_row]
   \<and> updated_at wheat_row = Some 0
   \<and> map updated_at (crop_cycles (snd (markCropAsHarvested (farm []) 1762362000000 1)))
       = [Some 1762362000000, Some 0]"
  by (simp add: markCropAsHarvested_def update_crop_cycles_def getCurrentUser_def farm_def
       wheat_row_def rice_row_def wheat_def CropCycle.extend_def crop_cycles_row.fields_def)

text \<open>
  C7, amended. Let \<open>c\<close> be a row of the signed-in user with \<open>crop_id = cropId\<close>, and let
  markCropAsHarvested, issued at \<open>now\<close>, succeed. The table keeps its length; each row
  matching \<open>cropId\<close> and the user becomes the same row with \<open>is_active = false\<close> and
  \<open>updated_at = now\<close>, every other row is unchanged, and so are the session, the other
  tables and the behaviour of the service. The row \<open>c\<close> is still stored, inactive, and
  getActiveCrops returns only active rows, none of them with this \<open>crop_id\<close>.
\<close>

theorem markCropAsHarvested_frame:
  assumes "getCurrentUser db = Some user"
      and "c \<in> set (crop_cycles db)" and "crop_id c = cropId" and "user_id c = user"
      and "markCropAsHarvested db now cropId = (True, db')"
  shows "length (crop_cycles db') = length (crop_cycles db)
       \<and> (\<forall>i < length (crop_cycles db).
            crop_cycles db' ! i =
              (if crop_id (crop_cycles db ! i) = cropId \<and> user_id (crop_cycles db ! i) = user
               then (crop_cycles db ! i)\<lparr>is_active := False, updated_at := Some now\<rparr>
               else crop_cycles db ! i))
       \<and> auth_user db' = auth_user db \<and> users db' = users db
       \<and> disease_logs db' = disease_logs db \<and> request_error db' = request_error db
       \<and> c\<lparr>is_active := False, updated_at := Some now\<rparr> \<in> set (crop_cycles db')
       \<and> (\<forall>r \<in> set (getActiveCrops db'). is_active r \<and> crop_id r \<noteq> cropId)"
proof -
  let ?upd = "\<lambda>r. if crop_id r = cropId \<and> user_id r = user
                   then r\<lparr>is_active := False, updated_at := Some now\<rparr> else r"
  from assms(1,5) have db': "db' = db\<lparr>crop_cycles := map ?upd (crop_cycles db)\<rparr>"
    by (auto simp: markCropAsHarvested_def update_crop_cycles_def split: option.splits)
  have rows: "crop_cycles db' = map ?upd (crop_cycles db)" by (simp add: db')
  have len: "length (crop_cycles db') = length (crop_cycles db)" by (simp add: rows)
  have pointwise: "\<forall>i < length (crop_cycles db). crop_cycles db' ! i = ?upd (crop_cycles db ! i)"
    by (simp add: rows)
  have others: "auth_user db' = auth_user db \<and> users db' = users db
       \<and> disease_logs db' = disease_logs db \<and> request_error db' = request_error db"
    by (simp add: db')
  have "?upd c \<in> set (crop_cycles db')"
    unfolding rows set_map using assms(2) by (rule imageI)
  then have exists: "c\<lparr>is_active := False, updated_at := Some now\<rparr> \<in> set (crop_cycles db')"
    using assms(3,4) by simp
  have active: "\<forall>r \<in> set (getActiveCrops db'). is_active r \<and> crop_id r \<noteq> cropId"
  proof
    fix r assume "r \<in> set (getActiveCrops db')"
    then have r: "r \<in> set (crop_cycles db')" "Some (user_id r) = auth_user db'" "is_active r"
      using set_getActiveCrops [of db'] by auto
    from r(1) obtain r0 where r0: "r0 \<in> set (crop_cycles db)" "r = ?upd r0"
      unfolding rows by auto
    from r(2) assms(1) have u: "user_id r = user" by (simp add: db' getCurrentUser_def)
    show "is_active r \<and> crop_id r \<noteq> cropId"
      using r(3) r0(2) u by (auto split: if_splits)
  qed
  from len pointwise others exists active show ?thesis by simp
qed

theorem markCropAsHarvested_frame_witness:
  "getCurrentUser (farm []) = Some ''u1'' \<and> wheat_row \<in> set (crop_cycles (farm []))
   \<and> crop_id wheat_row = 1 \<and> user_id wheat_row = ''u1''
   \<and> fst (markCropAsHarvested (farm []) 1762362000000 1) = True
   \<and> crop_cycles (snd (markCropAsHarvested (farm []) 1762362000000 1))
       = [wheat_row\<lparr>is_active := False, updated_at := Some 1762362000000\<rparr>, rice_row]
   \<and> users (snd (markCropAsHarvested (farm []) 1762362000000 1)) = [farmer]
   \<and> map crop_id (getActiveCrops (snd (markCropAsHarvested (farm []) 1762362000000 1))) = [2]"
  using markCropAsHarvested_frame
          [of "farm []" "''u1''" wheat_row 1 1762362000000
              "snd (markCropAsHarvested (farm []) 1762362000000 1)"]
  by (simp add: markCropAsHarvested_def update_crop_cycles_def getCurrentUser_def
       getActiveCrops_def farm_def wheat_row_def rice_row_def wheat_def CropCycle.extend_def
       crop_cycles_row.fields_def)

section \<open>Properties of services/smartAlertService.ts\<close>

lemma sortAndLimit_sorted:
  "sorted (map (\<lambda>a. priorityOrder (priority a)) (sortAndLimit xs))"
proof -
  have "sorted (map (\<lambda>a. priorityOrder (priority a)) (sort_key (\<lambda>a. priorityOrder (priority a)) xs))"
    by (rule sorted_sort_key)
  then have "sorted (take 6 (map (\<lambda>a. priorityOrder (priority a))
                 (sort_key (\<lambda>a. priorityOrder (priority a)) xs)))"
    by (rule sorted_wrt_take)
  then show ?thesis by (simp add: sortAndLimit_def take_map)
qed

lemma generateSmartAlerts_cases:
  "generateSmartAlerts rt forecast crops soilData recentDiseases = []
   \<or> (\<exists>xs. generateSmartAlerts rt forecast crops soilData recentDiseases = sortAndLimit xs)"
  by (auto simp: generateSmartAlerts_def Let_def split: option.splits)

text \<open>
  C2. The ranks are \<open>critical < high < medium < low\<close>, and in the list that
  generateSmartAlerts returns no alert is followed by one of a smaller rank: every
  \<open>critical\<close> alert precedes every \<open>high\<close> one, and so on, for every input.
\<close>

theorem generateSmartAlerts_sorted:
  "priorityOrder critical < priorityOrder high \<and> priorityOrder high < priorityOrder medium
   \<and> priorityOrder medium < priorityOrder low
   \<and> sorted_wrt (\<lambda>a b. priorityOrder (priority a) \<le> priorityOrder (priority b))
        (generateSmartAlerts rt forecast crops soilData recentDiseases)"
proof -
  have "sorted (map (\<lambda>a. priorityOrder (priority a))
          (generateSmartAlerts rt forecast crops soilData recentDiseases))"
    using generateSmartAlerts_cases [of rt forecast crops soilData recentDiseases]
      sortAndLimit_sorted by auto
  then show ?thesis by (simp add: sorted_map)
qed

lemma length_sortAndLimit: "length (sortAndLimit xs) \<le> 6"
  by (simp add: sortAndLimit_def)

text \<open>
  C9. generateSmartAlerts returns at most six alerts, for every input.
\<close>

theorem generateSmartAlerts_at_most_six:
  "length (generateSmartAlerts rt forecast crops soilData recentDiseases) \<le> 6"
  using generateSmartAlerts_cases [of rt forecast crops soilData recentDiseases]
    length_sortAndLimit by auto

lemmas alert_defs = generateRainAlert_def generateHeavyRainAlert_def generateHeatAlert_def
  generateColdAlert_def generateWindAlert_def generateDiseaseRiskAlert_def generateUVAlert_def

text \<open>
  C3 as stated fails: a day with 60 mm of rain at 80 percent chance yields the heavy-rain
  alert and no regular rain alert, in the loop and in the returned list.
\<close>

theorem dayAlerts_heavy_rain_counterexample:
  "totalprecip_mm (day storm) > 50 \<and> daily_chance_of_rain (day storm) > 70
   \<and> map alert_id (dayAlerts 0 storm [wheat] []) = [''heavy-rain-2025-06-01'']
   \<and> map alert_id (generateSmartAlerts clock (Some \<lparr>forecastday = [storm, storm]\<rparr>) [wheat] None [])
       = [''heavy-rain-2025-06-01'', ''heavy-rain-2025-06-01'', ''weather-summary'', ''crop-monitoring'']"
  by (simp add: dayAlerts_def alert_defs storm_def clock_def generateSmartAlerts_def collectedAlerts_def
        loopBody_def generateFillerAlerts_def filler_def sortAndLimit_def harvestAlertOf_def
        wheat_def Let_def)

lemma generated_ids:
  "alert_id (generateRainAlert d crops) = ''rain-'' @ date d"
  "alert_id (generateHeavyRainAlert d crops) = ''heavy-rain-'' @ date d"
  "alert_id (generateHeatAlert d crops) = ''heat-'' @ date d"
  "alert_id (generateColdAlert d crops) = ''cold-'' @ date d"
  "alert_id (generateWindAlert d crops) = ''wind-'' @ date d"
  "alert_id (generateDiseaseRiskAlert d crops rd) = ''disease-risk-'' @ date d"
  "alert_id (generateUVAlert d) = ''uv-'' @ date d"
  by (simp_all add: alert_defs)

lemma forecastLoop_alerts:
  "alerts (forecastLoop i ds crops rd st) =
     alerts st @ concat (map (\<lambda>(k, d). dayAlerts k d crops rd) (zip [i..<i + length ds] ds))"
proof (induction ds arbitrary: i st)
  case Nil
  then show ?case by simp
next
  case (Cons d ds)
  have upt: "[i..<i + length (d # ds)] = i # [Suc i..<Suc i + length ds]"
    by (simp add: upt_rec)
  show ?case
    unfolding upt by (simp add: Cons.IH loopBody_def Let_def)
qed

lemma in_zip_upt: "(k, d) \<in> set (zip [0..<length ds] ds) \<longleftrightarrow> k < length ds \<and> ds ! k = d"
proof
  assume "(k, d) \<in> set (zip [0..<length ds] ds)"
  then show "k < length ds \<and> ds ! k = d" by (auto simp: in_set_zip)
next
  assume "k < length ds \<and> ds ! k = d"
  then have "[0..<length ds] ! k = k \<and> ds ! k = d \<and> k < length [0..<length ds] \<and> k < length ds"
    by simp
  then show "(k, d) \<in> set (zip [0..<length ds] ds)"
    unfolding in_set_zip by (intro exI [of _ k]) simp
qed

lemma in_dayAlerts_heat:
  "generateHeatAlert d crops \<in> set (dayAlerts k d' crops rd) \<longleftrightarrow> d' = d \<and> maxtemp_c (day d) > 35"
  by (auto simp: dayAlerts_def alert_defs)

lemma in_dayAlerts_cold:
  "generateColdAlert d crops \<in> set (dayAlerts k d' crops rd) \<longleftrightarrow> d' = d \<and> mintemp_c (day d) < 10"
  by (auto simp: dayAlerts_def alert_defs)

lemma in_dayAlerts_wind:
  "generateWindAlert d crops \<in> set (dayAlerts k d' crops rd) \<longleftrightarrow> d' = d \<and> maxwind_kph (day d) > 40"
  by (auto simp: dayAlerts_def alert_defs)

lemma in_dayAlerts_heavy:
  "generateHeavyRainAlert d crops \<in> set (dayAlerts k d' crops rd)
     \<longleftrightarrow> d' = d \<and> totalprecip_mm (day d) > 50"
  by (auto simp: dayAlerts_def alert_defs)

lemma in_dayAlerts_rain:
  "generateRainAlert d crops \<in> set (dayAlerts k d' crops rd)
     \<longleftrightarrow> d' = d \<and> daily_chance_of_rain (day d) > 70 \<and> totalprecip_mm (day d) > 5
         \<and> \<not> totalprecip_mm (day d) > 50"
  by (auto simp: dayAlerts_def alert_defs)

lemma in_dayAlerts_uv:
  "generateUVAlert d \<in> set (dayAlerts k d' crops rd) \<longleftrightarrow> d' = d \<and> k < 2 \<and> uv (day d) > 8"
  by (auto simp: dayAlerts_def alert_defs)


lemma in_loop_alerts:
  assumes "\<And>k d'. a \<in> set (dayAlerts k d' crops rd) \<longleftrightarrow> d' = d \<and> P k"
  shows "a \<in> set (concat (map (\<lambda>(k, d). dayAlerts k d crops rd)
                        (zip [0..<length ds] ds)))
           \<longleftrightarrow> (\<exists>k < length ds. ds ! k = d \<and> P k)"
proof -
  have "a \<in> set (concat (map (\<lambda>(k, d). dayAlerts k d crops rd) (zip [0..<length ds] ds)))
          \<longleftrightarrow> (\<exists>k d'. (k, d') \<in> set (zip [0..<length ds] ds) \<and> a \<in> set (dayAlerts k d' crops rd))"
    by auto
  also have "\<dots> \<longleftrightarrow> (\<exists>k d'. k < length ds \<and> ds ! k = d' \<and> d' = d \<and> P k)"
    unfolding in_zip_upt assms by blast
  also have "\<dots> \<longleftrightarrow> (\<exists>k < length ds. ds ! k = d \<and> P k)"
    by blast
  finally show ?thesis .
qed

lemma harvest_ids:
  "a \<in> set (generateHarvestAlerts rt crops) \<Longrightarrow> \<exists>s. alert_id a = ''harvest-'' @ s"
proof (induction crops)
  case Nil
  then show ?case by simp
next
  case (Cons crop crops)
  then show ?case
    by (auto simp: harvestAlertOf_def Let_def split: option.splits if_splits)
qed

lemma collectedAlerts_split:
  "\<exists>rest. collectedAlerts rt fc crops soilData rd =
            concat (map (\<lambda>(k, d). dayAlerts k d crops rd)
                      (zip [0..<length (forecastday fc)] (forecastday fc))) @ rest
          \<and> (\<forall>a \<in> set rest. alert_id a = ''irrigation-needed''
                \<or> alert_id a = ''fertilizer-alert'' \<or> (\<exists>s. alert_id a = ''harvest-'' @ s))"
proof -
  let ?afterLoop = "\<lambda>a. alert_id a = ''irrigation-needed''
                \<or> alert_id a = ''fertilizer-alert'' \<or> (\<exists>s. alert_id a = ''harvest-'' @ s)"
  let ?loop = "concat (map (\<lambda>(k, d). dayAlerts k d crops rd)
                      (zip [0..<length (forecastday fc)] (forecastday fc)))"
  have loop: "alerts (forecastLoop 0 (forecastday fc) crops rd
                 \<lparr>alerts = [], hasRainInForecast = False, daysWithoutRain = 0\<rparr>) = ?loop"
    using forecastLoop_alerts [of 0 "forecastday fc" crops rd] by simp
  define st where "st = forecastLoop 0 (forecastday fc) crops rd
                 \<lparr>alerts = [], hasRainInForecast = False, daysWithoutRain = 0\<rparr>"
  define irrigation where "irrigation =
     (if daysWithoutRain st \<ge> 3
      then (case find (\<lambda>d. daily_chance_of_rain (day d) < 20 \<and> totalprecip_mm (day d) < 2)
                   (forecastday fc) of
              Some nextDryDay \<Rightarrow> [generateIrrigationAlert nextDryDay crops soilData]
            | None \<Rightarrow> [])
      else [])"
  define fertilizer where "fertilizer =
     (case soilData of
        None \<Rightarrow> []
      | Some s \<Rightarrow> (case generateFertilizerAlert rt s crops of
                    Some fertilizerAlert \<Rightarrow> [fertilizerAlert]
                  | None \<Rightarrow> []))"
  have irr: "\<forall>a \<in> set irrigation. ?afterLoop a"
  proof
    fix a assume a: "a \<in> set irrigation"
    have "irrigation = [] \<or> (\<exists>nextDryDay. irrigation
                               = [generateIrrigationAlert nextDryDay crops soilData])"
    proof (cases "find (\<lambda>d. daily_chance_of_rain (day d) < 20 \<and> totalprecip_mm (day d) < 2)
                   (forecastday fc)")
      case None
      then show ?thesis by (simp add: irrigation_def)
    next
      case (Some nextDryDay)
      then show ?thesis by (auto simp: irrigation_def)
    qed
    then obtain nextDryDay where "a = generateIrrigationAlert nextDryDay crops soilData"
      using a by auto
    then show "?afterLoop a"
      by (simp add: generateIrrigationAlert_def)
  qed
  have f: "\<forall>a \<in> set fertilizer. ?afterLoop a"
  proof (cases soilData)
    case None
    then show ?thesis by (simp add: fertilizer_def)
  next
    case (Some soil)
    show ?thesis
    proof (cases "generateFertilizerAlert rt soil crops")
      case None
      then show ?thesis using Some by (simp add: fertilizer_def)
    next
      case (Some fertilizerAlert)
      then have "alert_id fertilizerAlert = ''fertilizer-alert''"
        by (auto simp: generateFertilizerAlert_def Let_def split: if_splits)
      then show ?thesis
        using Some \<open>soilData = Some soil\<close> by (simp add: fertilizer_def)
    qed
  qed
  have c: "collectedAlerts rt fc crops soilData rd
             = ((?loop @ irrigation) @ fertilizer) @ generateHarvestAlerts rt crops"
    unfolding collectedAlerts_def Let_def irrigation_def fertilizer_def st_def loop ..
  have h: "\<forall>a \<in> set (generateHarvestAlerts rt crops). ?afterLoop a"
    using harvest_ids by blast
  show ?thesis
    by (rule exI [of _ "irrigation @ fertilizer @ generateHarvestAlerts rt crops"])
       (use c irr f h in auto)
qed


lemma in_collectedAlerts:
  assumes "\<And>k d'. a \<in> set (dayAlerts k d' crops rd) \<longleftrightarrow> d' = d \<and> P k"
      and "alert_id a \<noteq> ''irrigation-needed''" and "alert_id a \<noteq> ''fertilizer-alert''"
      and "\<And>s. alert_id a \<noteq> ''harvest-'' @ s"
  shows "a \<in> set (collectedAlerts rt fc crops soilData rd)
           \<longleftrightarrow> (\<exists>k < length (forecastday fc). forecastday fc ! k = d \<and> P k)"
proof -
  obtain rest where c: "collectedAlerts rt fc crops soilData rd =
            concat (map (\<lambda>(k, d). dayAlerts k d crops rd)
                      (zip [0..<length (forecastday fc)] (forecastday fc))) @ rest"
    and r: "\<forall>a \<in> set rest. alert_id a = ''irrigation-needed''
                \<or> alert_id a = ''fertilizer-alert'' \<or> (\<exists>s. alert_id a = ''harvest-'' @ s)"
    using collectedAlerts_split [of rt fc crops soilData rd] by blast
  have "a \<notin> set rest" using r assms(2,3,4) by blast
  then show ?thesis
    unfolding c using in_loop_alerts [of a crops rd d P "forecastday fc", OF assms(1)] by simp
qed

lemma some_index: "(\<exists>k < length ds. ds ! k = d \<and> c) \<longleftrightarrow> d \<in> set ds \<and> c"
  by (auto simp: in_set_conv_nth)

lemma early_index: "(\<exists>k < length ds. ds ! k = d \<and> k < 2 \<and> c) \<longleftrightarrow> d \<in> set (take 2 ds) \<and> c"
proof
  assume "\<exists>k < length ds. ds ! k = d \<and> k < 2 \<and> c"
  then obtain k where "k < length ds" "ds ! k = d" "k < 2" c by blast
  then have "k < length (take 2 ds)" "take 2 ds ! k = d" by simp_all
  then have "d \<in> set (take 2 ds)" by (metis nth_mem)
  then show "d \<in> set (take 2 ds) \<and> c" using \<open>c\<close> by simp
next
  assume "d \<in> set (take 2 ds) \<and> c"
  then obtain k where "k < length (take 2 ds)" "take 2 ds ! k = d" c
    by (auto simp: in_set_conv_nth)
  then have "k < length ds \<and> ds ! k = d \<and> k < 2 \<and> c" by simp
  then show "\<exists>k < length ds. ds ! k = d \<and> k < 2 \<and> c" by blast
qed

lemma filler_ids:
  assumes "generateFillerAlerts rt fc crops soilData n = Some fs" and "a \<in> set fs"
  shows "alert_id a \<in> {''weather-summary'', ''soil-monitoring'', ''crop-monitoring'',
                        ''optimal-conditions'', ''weekly-planning''}"
  using assms unfolding generateFillerAlerts_def Let_def
  by (auto split: if_splits list.splits dest!: in_set_takeD simp: filler_def)

lemma set_sortAndLimit: "set (sortAndLimit xs) \<subseteq> set xs"
  unfolding sortAndLimit_def using set_take_subset [of 6 "sort_key (\<lambda>a. priorityOrder (priority a)) xs"]
  by simp

lemma set_sortAndLimit_all: "length xs \<le> 6 \<Longrightarrow> set (sortAndLimit xs) = set xs"
  by (simp add: sortAndLimit_def)

lemma returned_subset:
  assumes "a \<in> set (generateSmartAlerts rt (Some fc) crops soilData rd)"
  shows "a \<in> set (collectedAlerts rt fc crops soilData rd)
         \<or> alert_id a \<in> {''weather-summary'', ''soil-monitoring'', ''crop-monitoring'',
                           ''optimal-conditions'', ''weekly-planning''}"
proof (cases "length (collectedAlerts rt fc crops soilData rd) < 3")
  case False
  then have "generateSmartAlerts rt (Some fc) crops soilData rd
               = sortAndLimit (collectedAlerts rt fc crops soilData rd)"
    by (simp add: generateSmartAlerts_def)
  then show ?thesis using assms set_sortAndLimit by auto
next
  case True
  show ?thesis
  proof (cases "generateFillerAlerts rt fc crops soilData
                  (length (collectedAlerts rt fc crops soilData rd))")
    case None
    then show ?thesis using assms True by (simp add: generateSmartAlerts_def)
  next
    case (Some fs)
    then have "generateSmartAlerts rt (Some fc) crops soilData rd
                 = sortAndLimit (collectedAlerts rt fc crops soilData rd @ fs)"
      using True by (simp add: generateSmartAlerts_def)
    then have "a \<in> set (collectedAlerts rt fc crops soilData rd) \<or> a \<in> set fs"
      using assms set_sortAndLimit [of "collectedAlerts rt fc crops soilData rd @ fs"] by auto
    then show ?thesis using filler_ids [OF Some] by blast
  qed
qed

lemma returned_all:
  assumes "3 \<le> length (collectedAlerts rt fc crops soilData rd)"
      and "length (collectedAlerts rt fc crops soilData rd) \<le> 6"
  shows "set (generateSmartAlerts rt (Some fc) crops soilData rd)
           = set (collectedAlerts rt fc crops soilData rd)"
  using assms by (simp add: generateSmartAlerts_def set_sortAndLimit_all)


text \<open>
  C3, amended. Let \<open>collected\<close> be the list generateSmartAlerts has gathered when the
  loop over the forecast days and the irrigation, fertilizer and harvest checks are done,
  before fillers are added and the list is sorted and cut to six. For a forecast day
  \<open>d\<close>, \<open>collected\<close> holds the heat alert of \<open>d\<close> exactly when \<open>maxtemp_c > 35\<close>,
  the cold alert exactly when \<open>mintemp_c < 10\<close>, the wind alert exactly when
  \<open>maxwind_kph > 40\<close>, the heavy-rain alert exactly when \<open>totalprecip_mm > 50\<close>, the
  regular rain alert exactly when \<open>daily_chance_of_rain > 70\<close> and
  \<open>totalprecip_mm > 5\<close> and the day is not a heavy-rain day, and the UV alert exactly
  when \<open>uv > 8\<close> and \<open>d\<close> is one of the first two days. The returned list holds
  only collected alerts and fillers, and every collected alert when there are between
  three and six of them.
\<close>

theorem smartAlerts_thresholds:
  assumes "days = forecastday fc"
      and "collected = collectedAlerts rt fc crops soilData recentDiseases"
      and "returned = generateSmartAlerts rt (Some fc) crops soilData recentDiseases"
  shows "(generateHeatAlert d crops \<in> set collected
            \<longleftrightarrow> d \<in> set days \<and> maxtemp_c (day d) > 35)
       \<and> (generateColdAlert d crops \<in> set collected
            \<longleftrightarrow> d \<in> set days \<and> mintemp_c (day d) < 10)
       \<and> (generateWindAlert d crops \<in> set collected
            \<longleftrightarrow> d \<in> set days \<and> maxwind_kph (day d) > 40)
       \<and> (generateHeavyRainAlert d crops \<in> set collected
            \<longleftrightarrow> d \<in> set days \<and> totalprecip_mm (day d) > 50)
       \<and> (generateRainAlert d crops \<in> set collected
            \<longleftrightarrow> d \<in> set days \<and> daily_chance_of_rain (day d) > 70
                \<and> totalprecip_mm (day d) > 5 \<and> \<not> totalprecip_mm (day d) > 50)
       \<and> (generateUVAlert d \<in> set collected
            \<longleftrightarrow> d \<in> set (take 2 days) \<and> uv (day d) > 8)
       \<and> (\<forall>a \<in> set returned.
             a \<in> set collected
             \<or> alert_id a \<in> {''weather-summary'', ''soil-monitoring'', ''crop-monitoring'',
                               ''optimal-conditions'', ''weekly-planning''})
       \<and> (3 \<le> length collected \<and> length collected \<le> 6 \<longrightarrow> set returned = set collected)"
proof -
  have heat: "generateHeatAlert d crops \<in> set collected
            \<longleftrightarrow> d \<in> set days \<and> maxtemp_c (day d) > 35"
    unfolding assms
    using in_collectedAlerts [of "generateHeatAlert d crops" crops recentDiseases d
            "\<lambda>k. maxtemp_c (day d) > 35" rt fc soilData, OF in_dayAlerts_heat]
    by (simp add: generated_ids some_index)
  have cold: "generateColdAlert d crops \<in> set collected
            \<longleftrightarrow> d \<in> set days \<and> mintemp_c (day d) < 10"
    unfolding assms
    using in_collectedAlerts [of "generateColdAlert d crops" crops recentDiseases d
            "\<lambda>k. mintemp_c (day d) < 10" rt fc soilData, OF in_dayAlerts_cold]
    by (simp add: generated_ids some_index)
  have wind: "generateWindAlert d crops \<in> set collected
            \<longleftrightarrow> d \<in> set days \<and> maxwind_kph (day d) > 40"
    unfolding assms
    using in_collectedAlerts [of "generateWindAlert d crops" crops recentDiseases d
            "\<lambda>k. maxwind_kph (day d) > 40" rt fc soilData, OF in_dayAlerts_wind]
    by (simp add: generated_ids some_index)
  have heavy: "generateHeavyRainAlert d crops \<in> set collected
            \<longleftrightarrow> d \<in> set days \<and> totalprecip_mm (day d) > 50"
    unfolding assms
    using in_collectedAlerts [of "generateHeavyRainAlert d crops" crops recentDiseases d
            "\<lambda>k. totalprecip_mm (day d) > 50" rt fc soilData, OF in_dayAlerts_heavy]
    by (simp add: generated_ids some_index)
  have rain: "generateRainAlert d crops \<in> set collected
            \<longleftrightarrow> d \<in> set days \<and> daily_chance_of_rain (day d) > 70
                \<and> totalprecip_mm (day d) > 5 \<and> \<not> totalprecip_mm (day d) > 50"
    unfolding assms
    using in_collectedAlerts [of "generateRainAlert d crops" crops recentDiseases d
            "\<lambda>k. daily_chance_of_rain (day d) > 70
                \<and> totalprecip_mm (day d) > 5 \<and> \<not> totalprecip_mm (day d) > 50"
            rt fc soilData, OF in_dayAlerts_rain]
    by (simp add: generated_ids some_index)
  have uv: "generateUVAlert d \<in> set collected
            \<longleftrightarrow> d \<in> set (take 2 days) \<and> uv (day d) > 8"
    unfolding assms
    using in_collectedAlerts [of "generateUVAlert d" crops recentDiseases d
            "\<lambda>k. k < 2 \<and> uv (day d) > 8" rt fc soilData, OF in_dayAlerts_uv]
    by (simp add: generated_ids early_index)
  have sub: "\<forall>a \<in> set returned.
             a \<in> set collected
             \<or> alert_id a \<in> {''weather-summary'', ''soil-monitoring'', ''crop-monitoring'',
                               ''optimal-conditions'', ''weekly-planning''}"
    unfolding assms using returned_subset by blast
  have all: "3 \<le> length collected \<and> length collected \<le> 6 \<longrightarrow> set returned = set collected"
    unfolding assms using returned_all by blast
  from heat cold wind heavy rain uv sub all show ?thesis by blast
qed

theorem smartAlerts_thresholds_witness:
  "length (collectedAlerts clock \<lparr>forecastday = [storm, scorcher]\<rparr> [wheat] None []) = 6
   \<and> generateHeatAlert scorcher [wheat]
       \<in> set (generateSmartAlerts clock (Some \<lparr>forecastday = [storm, scorcher]\<rparr>) [wheat] None [])
   \<and> generateUVAlert scorcher
       \<in> set (generateSmartAlerts clock (Some \<lparr>forecastday = [storm, scorcher]\<rparr>) [wheat] None [])
   \<and> generateHeavyRainAlert storm [wheat]
       \<in> set (generateSmartAlerts clock (Some \<lparr>forecastday = [storm, scorcher]\<rparr>) [wheat] None [])
   \<and> generateRainAlert storm [wheat]
       \<notin> set (generateSmartAlerts clock (Some \<lparr>forecastday = [storm, scorcher]\<rparr>) [wheat] None [])"
proof -
  let ?fc = "\<lparr>forecastday = [storm, scorcher]\<rparr>"
  have len: "length (collectedAlerts clock ?fc [wheat] None []) = 6"
    by (simp add: collectedAlerts_def dayAlerts_def loopBody_def harvestAlertOf_def
          storm_def scorcher_def clock_def wheat_def Let_def)
  have days: "storm \<noteq> scorcher" "maxtemp_c (day scorcher) > 35" "uv (day scorcher) > 8"
    "totalprecip_mm (day storm) > 50"
    by (simp_all add: storm_def scorcher_def)
  note hot = smartAlerts_thresholds
    [where d = scorcher and fc = ?fc and rt = clock and crops = "[wheat]" and soilData = None
       and recentDiseases = "[]", OF refl refl refl]
  note wet = smartAlerts_thresholds
    [where d = storm and fc = ?fc and rt = clock and crops = "[wheat]" and soilData = None
       and recentDiseases = "[]", OF refl refl refl]
  have same: "set (generateSmartAlerts clock (Some ?fc) [wheat] None [])
                = set (collectedAlerts clock ?fc [wheat] None [])"
    using hot len by simp
  show ?thesis
    unfolding same using hot wet len days by simp
qed


text \<open>
  Three hot, cold, windy days collect fourteen alerts, of which six are returned.
\<close>

theorem generateSmartAlerts_at_most_six_witness:
  "length (collectedAlerts clock \<lparr>forecastday = [scorcher, scorcher, scorcher]\<rparr> [wheat] None []) = 14
   \<and> length (generateSmartAlerts clock (Some \<lparr>forecastday = [scorcher, scorcher, scorcher]\<rparr>)
               [wheat] None []) = 6"
  using generateSmartAlerts_at_most_six [of clock "Some \<lparr>forecastday = [scorcher, scorcher, scorcher]\<rparr>" "[wheat]" None "[]"]
  by (simp add: dayAlerts_def alert_defs scorcher_def clock_def generateSmartAlerts_def collectedAlerts_def
        loopBody_def sortAndLimit_def harvestAlertOf_def wheat_def Let_def)

section \<open>Properties of services/cropAdvisoryAI.ts\<close>

lemmas fallback_texts = fallback_hi_def fallback_mr_def fallback_te_def fallback_ta_def
  fallback_en_def fallback_mixed_def

lemma fallbackMessages_table:
  "fallbackMessages ''hi'' = Some (StringValue fallback_hi)"
  "fallbackMessages ''mr'' = Some (StringValue fallback_mr)"
  "fallbackMessages ''te'' = Some (StringValue fallback_te)"
  "fallbackMessages ''ta'' = Some (StringValue fallback_ta)"
  "fallbackMessages ''en'' = Some (StringValue fallback_en)"
  "fallbackMessages ''mixed'' = Some (StringValue fallback_mixed)"
  by (simp_all add: fallbackMessages_def)

lemma fallback_nonempty:
  "fallback_hi \<noteq> []" "fallback_mr \<noteq> []" "fallback_te \<noteq> []" "fallback_ta \<noteq> []"
  "fallback_en \<noteq> []" "fallback_mixed \<noteq> []"
  by (simp_all add: fallback_texts)

lemma fallback_distinct:
  "distinct [fallback_hi, fallback_mr, fallback_te, fallback_ta, fallback_en, fallback_mixed]"
  by (simp add: fallback_texts)

lemma enriched_language:
  "property preferredLanguage (farmerProfile (enrichedContext context dbContext)) =
     Some (if truthy (property preferredLanguage (farmerProfile context))
           then the (property preferredLanguage (farmerProfile context))
           else if truthy (property preferredLanguage (farmerProfile dbContext))
                then the (property preferredLanguage (farmerProfile dbContext))
           else ''mixed'')"
  by (simp add: enrichedContext_def enrichedProfile_def property_def)

lemma getFallbackResponse_message:
  assumes "property preferredLanguage (farmerProfile c) = Some l" and "fallbackMessages l = Some (StringValue m)"
    and "l \<noteq> []" and "m \<noteq> []"
  shows "message (getFallbackResponse c) = StringValue m"
  using assms by (simp add: getFallbackResponse_def isTruthy_def)

lemma generateAdvice_failure:
  assumes "\<not> model service \<or> apiKey service = [] \<or> call = TimesOut \<or> call = NoResponse
           \<or> (\<exists>e. call = Throws e) \<or> (\<exists>e. call = TextThrows e)
           \<or> (\<exists>t. call = Text t \<and> trim t = [])"
  shows "generateAdvice service parseResponse context dbContext call
           = getFallbackResponse (enrichedContext context dbContext)"
  using assms by (auto simp: generateAdvice_def tryGenerate_def Let_def)

text \<open>
  Outside the six codes: an unknown language gets the \<open>mixed\<close> text, and a language
  that names a member of \<open>Object.prototype\<close> gets that member, which is no string.
\<close>

lemma getFallbackResponse_other_languages:
  "message (getFallbackResponse
      \<lparr>farmerId = None, sessionId = None,
       farmerProfile = Some \<lparr>name = None, location = None, farmSize = None,
                              preferredLanguage = Some ''bn'', experienceLevel = None\<rparr>\<rparr>)
     = StringValue fallback_mixed"
  "message (getFallbackResponse
      \<lparr>farmerId = None, sessionId = None,
       farmerProfile = Some \<lparr>name = None, location = None, farmSize = None,
                              preferredLanguage = Some ''toString'', experienceLevel = None\<rparr>\<rparr>)
     = InheritedMember ''toString''"
  by (simp_all add: getFallbackResponse_def fallbackMessages_def objectPrototypeMembers_def
        property_def isTruthy_def Let_def)

text \<open>
  C6. Let the call to the generative model fail: the model or the API key is not
  configured, the call throws or times out, the result carries no response, reading its
  text throws, or the text is empty or blank. Then generateAdvice returns
  getFallbackResponse of the enriched context. Its message is the fixed text of the
  farmer's language (the caller's choice, else the stored one, else \<open>mixed\<close>), one for
  each of \<open>hi\<close>, \<open>mr\<close>, \<open>te\<close>, \<open>ta\<close>, \<open>en\<close> and \<open>mixed\<close>, and the six
  texts differ.
\<close>

theorem generateAdvice_fallback:
  assumes "\<not> model service \<or> apiKey service = [] \<or> call = TimesOut \<or> call = NoResponse
           \<or> (\<exists>e. call = Throws e) \<or> (\<exists>e. call = TextThrows e)
           \<or> (\<exists>t. call = Text t \<and> trim t = [])"
      and "language = (if truthy (property preferredLanguage (farmerProfile context))
                       then the (property preferredLanguage (farmerProfile context))
                       else if truthy (property preferredLanguage (farmerProfile dbContext))
                            then the (property preferredLanguage (farmerProfile dbContext))
                       else ''mixed'')"
  shows "generateAdvice service parseResponse context dbContext call
           = getFallbackResponse (enrichedContext context dbContext)
       \<and> (language = ''hi'' \<longrightarrow>
            message (generateAdvice service parseResponse context dbContext call) = StringValue fallback_hi)
       \<and> (language = ''mr'' \<longrightarrow>
            message (generateAdvice service parseResponse context dbContext call) = StringValue fallback_mr)
       \<and> (language = ''te'' \<longrightarrow>
            message (generateAdvice service parseResponse context dbContext call) = StringValue fallback_te)
       \<and> (language = ''ta'' \<longrightarrow>
            message (generateAdvice service parseResponse context dbContext call) = StringValue fallback_ta)
       \<and> (language = ''en'' \<longrightarrow>
            message (generateAdvice service parseResponse context dbContext call) = StringValue fallback_en)
       \<and> (language = ''mixed'' \<longrightarrow>
            message (generateAdvice service parseResponse context dbContext call) = StringValue fallback_mixed)
       \<and> distinct [fallback_hi, fallback_mr, fallback_te, fallback_ta, fallback_en, fallback_mixed]"
proof -
  let ?c = "enrichedContext context dbContext"
  have fb: "generateAdvice service parseResponse context dbContext call = getFallbackResponse ?c"
    using assms(1) by (rule generateAdvice_failure)
  have lang: "property preferredLanguage (farmerProfile ?c) = Some language"
    unfolding assms(2) by (rule enriched_language)
  have msg: "\<And>l m. language = l \<Longrightarrow> fallbackMessages l = Some (StringValue m) \<Longrightarrow> l \<noteq> []
               \<Longrightarrow> m \<noteq> [] \<Longrightarrow> message (getFallbackResponse ?c) = StringValue m"
    using getFallbackResponse_message [of ?c] lang by simp
  have hi: "language = ''hi'' \<longrightarrow> message (getFallbackResponse ?c) = StringValue fallback_hi"
    using msg [OF _ fallbackMessages_table(1) _ fallback_nonempty(1)] by simp
  have mr: "language = ''mr'' \<longrightarrow> message (getFallbackResponse ?c) = StringValue fallback_mr"
    using msg [OF _ fallbackMessages_table(2) _ fallback_nonempty(2)] by simp
  have te: "language = ''te'' \<longrightarrow> message (getFallbackResponse ?c) = StringValue fallback_te"
    using msg [OF _ fallbackMessages_table(3) _ fallback_nonempty(3)] by simp
  have ta: "language = ''ta'' \<longrightarrow> message (getFallbackResponse ?c) = StringValue fallback_ta"
    using msg [OF _ fallbackMessages_table(4) _ fallback_nonempty(4)] by simp
  have en: "language = ''en'' \<longrightarrow> message (getFallbackResponse ?c) = StringValue fallback_en"
    using msg [OF _ fallbackMessages_table(5) _ fallback_nonempty(5)] by simp
  have mixed: "language = ''mixed'' \<longrightarrow> message (getFallbackResponse ?c) = StringValue fallback_mixed"
    using msg [OF _ fallbackMessages_table(6) _ fallback_nonempty(6)] by simp
  from hi mr te ta en mixed fallback_distinct show ?thesis
    unfolding fb by blast
qed


theorem generateAdvice_fallback_witness:
  "message (generateAdvice \<lparr>model = True, apiKey = ''key''\<rparr>
      (\<lambda>t c. (getFallbackResponse c)\<lparr>message := StringValue t\<rparr>)
      \<lparr>farmerId = None, sessionId = None, farmerProfile = None\<rparr>
      \<lparr>farmerId = Some ''u1'', sessionId = None,
       farmerProfile = Some \<lparr>name = Some ''Farmer'', location = None, farmSize = None,
                              preferredLanguage = Some ''en'', experienceLevel = None\<rparr>\<rparr>
      TimesOut)
   = StringValue
       (map of_char ''Hello! I am here to help with your farming. Please ask your question again.'')"
proof -
  let ?parse = "\<lambda>t c. (getFallbackResponse c)\<lparr>message := StringValue t\<rparr>"
  let ?service = "\<lparr>model = True, apiKey = ''key''\<rparr>"
  let ?ui = "\<lparr>farmerId = None, sessionId = None, farmerProfile = None\<rparr>"
  let ?db = "\<lparr>farmerId = Some ''u1'', sessionId = None,
       farmerProfile = Some \<lparr>name = Some ''Farmer'', location = None, farmSize = None,
                              preferredLanguage = Some ''en'', experienceLevel = None\<rparr>\<rparr>"
  have fails: "\<not> model ?service \<or> apiKey ?service = [] \<or> TimesOut = TimesOut
           \<or> TimesOut = NoResponse
           \<or> (\<exists>e. TimesOut = Throws e) \<or> (\<exists>e. TimesOut = TextThrows e)
           \<or> (\<exists>t. TimesOut = Text t \<and> trim t = [])"
    by simp
  have lang: "''en'' = (if truthy (property preferredLanguage (farmerProfile ?ui))
                       then the (property preferredLanguage (farmerProfile ?ui))
                       else if truthy (property preferredLanguage (farmerProfile ?db))
                            then the (property preferredLanguage (farmerProfile ?db))
                       else ''mixed'')"
    by (simp add: property_def truthy_def)
  from generateAdvice_fallback [OF fails lang, of ?parse]
  have "message (generateAdvice ?service ?parse ?ui ?db TimesOut) = StringValue fallback_en"
    by blast
  then show ?thesis by (simp only: fallback_en_def)
qed

section \<open>Properties of lib/user-location.ts\<close>

subsection \<open>The guard flag\<close>




lemma guarded_database [simp]: "guarded (m\<lparr>database := db\<rparr>) = guarded m"
  by (simp add: guarded_def)










subsection \<open>The fallback location\<close>

text \<open>
  C10 as stated fails. With a signed-in user and no geolocation, a second invocation
  within the cooldown of the first resolves to null; so does an invocation whose save
  is answered with an error.
\<close>

theorem updateUserLocation_fallback_counterexample:
  "getCurrentUser (farm []) = Some ''u1''
   \<and> resolved (run (loaded (farm []))
        [Invoke 100, UserResolves 0, LocationResolves 0 None, SaveResolves 0 200 201,
         Invoke 1000, UserResolves 0, LocationResolves 0 None, SaveResolves 0 1100 1101])
      = [Some (LocationData.extend fallbackLocation (UserLocation.fields 201)), None]
   \<and> getCurrentUser (failing UpdateUsersLocation (farm [])) = Some ''u1''
   \<and> resolved (run (loaded (failing UpdateUsersLocation (farm [])))
        [Invoke 100, UserResolves 0, LocationResolves 0 None, SaveResolves 0 200 201])
      = [None]"
  by (simp add: run_def loaded_def getCurrentUser_def farm_def farmer_def failing_def finish_def
        saveLocationToDatabase_def PERMISSION_CHECK_COOLDOWN_def)


lemma step_Invoke_idle:
  assumes "\<not> locationUpdateInProgress m"
      and "\<not> (permissionDenied m \<and> now - lastPermissionCheck m < PERMISSION_CHECK_COOLDOWN)"
  shows "step m (Invoke now) =
           m\<lparr>locationUpdateInProgress := True, lastPermissionCheck := now,
             inFlight := inFlight m @ [AtGetCurrentUser]\<rparr>"
  using assms by auto

lemma step_UserResolves_signed_in:
  assumes "inFlight m = [AtGetCurrentUser]" and "getCurrentUser (database m) = Some user"
  shows "step m (UserResolves 0) = m\<lparr>inFlight := [AtGetCurrentLocation]\<rparr>"
  using assms by simp

lemma step_LocationResolves_unavailable:
  assumes "inFlight m = [AtGetCurrentLocation]"
  shows "step m (LocationResolves 0 None) =
           m\<lparr>permissionDenied := True, inFlight := [AtSaveLocation fallbackLocation]\<rparr>"
  using assms by simp

lemma step_SaveResolves_saved:
  assumes "inFlight m = [AtSaveLocation l]"
      and "saveLocationToDatabase (database m) savedAt l = (True, db')"
  shows "step m (SaveResolves 0 savedAt returnedAt) =
           finish 0 (Some (LocationData.extend l (UserLocation.fields returnedAt)))
             (m\<lparr>database := db'\<rparr>)"
  using assms by simp

lemma saveLocationToDatabase_ok:
  assumes "getCurrentUser db = Some user" and "request_error db UpdateUsersLocation = None"
  shows "saveLocationToDatabase db savedAt l =
           (True,
            db\<lparr>users :=
                 map (\<lambda>r. if users_id r = user
                           then r\<lparr>col_latitude := Some (latitude l),
                                  col_longitude := Some (longitude l),
                                  col_location_accuracy := Some (accuracy l),
                                  col_city := orNull (city l),
                                  col_state := orNull (state l),
                                  col_country := orNull (country l),
                                  col_location_updated_at := Some savedAt\<rparr>
                           else r) (users db)\<rparr>)"
  using assms by (simp add: saveLocationToDatabase_def)

lemma foldl_four: "foldl f a [w, x, y, z] = f (f (f (f a w) x) y) z"
  by simp

text \<open>
  C10, amended. From a module with no update in progress and no cooldown in force, with a
  signed-in user who has a row in \<open>users\<close> and a database that accepts the update:
  when geolocation is unavailable, the invocation resolves to the fixed Delhi location,
  stamped with the time of return. The database afterwards is the database before with
  the Delhi location and the time of saving written to the rows of the user, and nothing
  else changed; the user's row holds them. The flag is cleared, no invocation is in
  flight, \<open>permissionDenied\<close> is set and the time of the check is recorded.
\<close>

theorem updateUserLocation_fallback:
  assumes "\<not> locationUpdateInProgress m" and "inFlight m = []"
      and "\<not> (permissionDenied m \<and> now - lastPermissionCheck m < PERMISSION_CHECK_COOLDOWN)"
      and "getCurrentUser (database m) = Some user"
      and "u \<in> set (users (database m))" and "users_id u = user"
      and "request_error (database m) UpdateUsersLocation = None"
      and "m' = run m [Invoke now, UserResolves 0, LocationResolves 0 None,
                       SaveResolves 0 savedAt returnedAt]"
  shows "resolved m' = resolved m @
           [Some \<lparr>latitude = 28.6872, longitude = 77.2140, accuracy = 1000,
                  city = Some ''Delhi'', state = Some ''Delhi'', country = Some ''India'',
                  location_updated_at = returnedAt\<rparr>]
       \<and> database m' =
           (database m)\<lparr>users :=
              map (\<lambda>r. if users_id r = user
                        then r\<lparr>col_latitude := Some 28.6872, col_longitude := Some 77.2140,
                               col_location_accuracy := Some 1000,
                               col_city := Some ''Delhi'', col_state := Some ''Delhi'',
                               col_country := Some ''India'',
                               col_location_updated_at := Some savedAt\<rparr>
                        else r)
                  (users (database m))\<rparr>
       \<and> u\<lparr>col_latitude := Some 28.6872, col_longitude := Some 77.2140,
            col_location_accuracy := Some 1000,
            col_city := Some ''Delhi'', col_state := Some ''Delhi'',
            col_country := Some ''India'',
            col_location_updated_at := Some savedAt\<rparr> \<in> set (users (database m'))
       \<and> \<not> locationUpdateInProgress m' \<and> inFlight m' = [] \<and> permissionDenied m'
       \<and> lastPermissionCheck m' = now"
proof -
  define m1 where "m1 = step m (Invoke now)"
  define m2 where "m2 = step m1 (UserResolves 0)"
  define m3 where "m3 = step m2 (LocationResolves 0 None)"
  let ?f = "\<lambda>r. r\<lparr>col_latitude := Some 28.6872, col_longitude := Some 77.2140,
                     col_location_accuracy := Some 1000,
                     col_city := Some ''Delhi'', col_state := Some ''Delhi'',
                     col_country := Some ''India'',
                     col_location_updated_at := Some savedAt\<rparr>"
  let ?db' = "(database m)\<lparr>users :=
                 map (\<lambda>r. if users_id r = user then ?f r else r) (users (database m))\<rparr>"
  have m1: "inFlight m1 = [AtGetCurrentUser]" "database m1 = database m"
           "resolved m1 = resolved m" "lastPermissionCheck m1 = now"
    unfolding m1_def step_Invoke_idle [OF assms(1,3)] using assms(2) by simp_all
  have m2: "inFlight m2 = [AtGetCurrentLocation]" "database m2 = database m"
           "resolved m2 = resolved m" "lastPermissionCheck m2 = now"
    unfolding m2_def using step_UserResolves_signed_in [of m1 user] m1 assms(4) by simp_all
  have m3: "inFlight m3 = [AtSaveLocation fallbackLocation]" "database m3 = database m"
           "resolved m3 = resolved m" "permissionDenied m3" "lastPermissionCheck m3 = now"
    unfolding m3_def using step_LocationResolves_unavailable [of m2] m2 by simp_all
  have save: "saveLocationToDatabase (database m3) savedAt fallbackLocation = (True, ?db')"
    unfolding m3(2) saveLocationToDatabase_ok [OF assms(4,7)]
    by (simp add: fallbackLocation_def orNull_def cong: if_cong)
  have "m' = step m3 (SaveResolves 0 savedAt returnedAt)"
    unfolding assms(8) run_def foldl_four m1_def m2_def m3_def ..
  then have m': "m' = finish 0 (Some (LocationData.extend fallbackLocation
                                        (UserLocation.fields returnedAt)))
                        (m3\<lparr>database := ?db'\<rparr>)"
    using step_SaveResolves_saved [OF m3(1) save] by simp
  have res: "resolved m' = resolved m @
           [Some \<lparr>latitude = 28.6872, longitude = 77.2140, accuracy = 1000,
                  city = Some ''Delhi'', state = Some ''Delhi'', country = Some ''India'',
                  location_updated_at = returnedAt\<rparr>]"
    unfolding m' by (simp add: finish_def m3 fallbackLocation_def LocationData.extend_def
                       UserLocation.fields_def)
  have db: "database m' = ?db'"
    unfolding m' by (simp add: finish_def)
  have "(if users_id u = user then ?f u else u) \<in> set (users (database m'))"
    unfolding db using assms(5) by (simp add: image_iff) blast
  then have row: "?f u \<in> set (users (database m'))"
    using assms(6) by simp
  have flags: "\<not> locationUpdateInProgress m' \<and> inFlight m' = [] \<and> permissionDenied m'
                \<and> lastPermissionCheck m' = now"
    unfolding m' by (simp add: finish_def m3)
  from res db row flags show ?thesis by blast
qed

theorem updateUserLocation_fallback_witness:
  "\<not> locationUpdateInProgress (loaded (farm [])) \<and> inFlight (loaded (farm [])) = []
   \<and> \<not> (permissionDenied (loaded (farm []))
         \<and> 100 - lastPermissionCheck (loaded (farm [])) < PERMISSION_CHECK_COOLDOWN)
   \<and> getCurrentUser (database (loaded (farm []))) = Some ''u1''
   \<and> farmer \<in> set (users (database (loaded (farm [])))) \<and> users_id farmer = ''u1''
   \<and> request_error (database (loaded (farm []))) UpdateUsersLocation = None
   \<and> resolved (run (loaded (farm []))
        [Invoke 100, UserResolves 0, LocationResolves 0 None, SaveResolves 0 200 201])
       = [Some \<lparr>latitude = 28.6872, longitude = 77.2140, accuracy = 1000,
                  city = Some ''Delhi'', state = Some ''Delhi'', country = Some ''India'',
                  location_updated_at = 201\<rparr>]
   \<and> users (database (run (loaded (farm []))
        [Invoke 100, UserResolves 0, LocationResolves 0 None, SaveResolves 0 200 201]))
       = [\<lparr>users_id = ''u1'', col_latitude = Some 28.6872, col_longitude = Some 77.2140,
           col_location_accuracy = Some 1000, col_city = Some ''Delhi'',
           col_state = Some ''Delhi'', col_country = Some ''India'',
           col_location_updated_at = Some 200\<rparr>]
   \<and> \<not> locationUpdateInProgress (run (loaded (farm []))
        [Invoke 100, UserResolves 0, LocationResolves 0 None, SaveResolves 0 200 201])"
proof -
  have h1: "\<not> locationUpdateInProgress (loaded (farm []))"
    and h2: "inFlight (loaded (farm [])) = []"
    and h3: "\<not> (permissionDenied (loaded (farm []))
           \<and> 100 - lastPermissionCheck (loaded (farm [])) < PERMISSION_CHECK_COOLDOWN)"
    and h4: "getCurrentUser (database (loaded (farm []))) = Some ''u1''"
    and h5: "farmer \<in> set (users (database (loaded (farm []))))"
    and h6: "users_id farmer = ''u1''"
    and h7: "request_error (database (loaded (farm []))) UpdateUsersLocation = None"
    and r0: "resolved (loaded (farm [])) = []"
    and u0: "users (database (loaded (farm []))) = [farmer]"
    by (simp_all add: loaded_def getCurrentUser_def farm_def farmer_def)
  from updateUserLocation_fallback [OF h1 h2 h3 h4 h5 h6 h7 refl, of 200 201]
  have "resolved (run (loaded (farm []))
          [Invoke 100, UserResolves 0, LocationResolves 0 None, SaveResolves 0 200 201])
         = resolved (loaded (farm [])) @
           [Some \<lparr>latitude = 28.6872, longitude = 77.2140, accuracy = 1000,
                  city = Some ''Delhi'', state = Some ''Delhi'', country = Some ''India'',
                  location_updated_at = 201\<rparr>]"
    and "users (database (run (loaded (farm []))
          [Invoke 100, UserResolves 0, LocationResolves 0 None, SaveResolves 0 200 201]))
         = map (\<lambda>r. if users_id r = ''u1''
                        then r\<lparr>col_latitude := Some 28.6872, col_longitude := Some 77.2140,
                               col_location_accuracy := Some 1000,
                               col_city := Some ''Delhi'', col_state := Some ''Delhi'',
                               col_country := Some ''India'',
                               col_location_updated_at := Some 200\<rparr>
                        else r)
                  (users (database (loaded (farm []))))"
    and "\<not> locationUpdateInProgress (run (loaded (farm []))
          [Invoke 100, UserResolves 0, LocationResolves 0 None, SaveResolves 0 200 201])"
    by simp_all
  then show ?thesis
    using h1 h2 h3 h4 h5 h6 h7 unfolding r0 u0 by (simp add: farmer_def)
qed

end
